theory Spec2Isabelle
  imports Main "HOL-Library.Word"
begin

section \<open>Python values, requests and errors\<close>

text \<open>
  The serving front end (\<^verbatim>\<open>python/flexflow/serve/serve.py\<close>) inspects the run-time type of
  what the caller passes to \<^verbatim>\<open>LLM.generate\<close>. The values it can tell apart are the
  constructors of \<open>pyval\<close>; \<open>POther\<close> stands for an object of any other class, tagged with
  the name of that class. Dictionary keys are strings, which is all that a test such as
  \<^verbatim>\<open>"role" in message\<close> can ever find.
  A \<^verbatim>\<open>Request\<close> stores whatever it is constructed with, so its prompt is a \<open>pyval\<close>.
\<close>

datatype request_type = REQ_INFERENCE | REQ_FINETUNING

datatype pyval =
    PStr string
  | PInt int
  | PNone
  | PDict "(string \<times> pyval) list"
  | PList "pyval list"
  | PRequest request
  | POther string
and request =
    Request (req_type: request_type) (prompt: pyval) (max_length: int)
            (max_new_tokens: int) (add_special_tokens: bool)

text \<open>The assignment \<^verbatim>\<open>req.max_length = v\<close>.\<close>

fun set_max_length :: "int \<Rightarrow> request \<Rightarrow> request" where
  "set_max_length v (Request t p ml mnt ast) = Request t p v mnt ast"

text \<open>
  \<^verbatim>\<open>GenerationResult\<close> is a class of the engine binding; \<^verbatim>\<open>output_text\<close> is the only field
  this code reads or writes.
\<close>

record generation_result =
  output_text :: string

text \<open>
  Every \<^verbatim>\<open>raise\<close> and failing \<^verbatim>\<open>assert\<close> of the modelled code is one constructor; the
  comment gives the Python exception class and the message it carries.
\<close>

datatype error =
    BoundsExceeded int int int
      \<comment> \<open>ValueError: max_length or max_new_tokens exceeds the maximum sequence length\<close>
  | FinetuneMaxNewTokens int
      \<comment> \<open>ValueError: max_new_tokens is not allowed for finetuning requests\<close>
  | FinetuneBoundsExceeded int int
      \<comment> \<open>ValueError: max_length exceeds the maximum sequence length\<close>
  | NoRequestAttribute
      \<comment> \<open>AttributeError: the object has no attribute req_type\<close>
  | InvalidMessage
      \<comment> \<open>ValueError: each element must be a dictionary with the keys role and content\<close>
  | NoChatTemplate
      \<comment> \<open>ValueError: the model does not support chat completion\<close>
  | NotIterable
      \<comment> \<open>TypeError: the object is not iterable\<close>
  | NoLength
      \<comment> \<open>TypeError: the object has no len()\<close>
  | OutputCountMismatch
      \<comment> \<open>AssertionError: len(requests) == len(outputs)\<close>
  | BadInputType
      \<comment> \<open>AssertionError: please pass a string, list of strings, Request, or list of Requests\<close>
  | EngineError string
      \<comment> \<open>whatever the engine call raises\<close>
  | LoraConfigNone
      \<comment> \<open>ValueError: lora_config cannot be None\<close>
  | PeftIdEmpty
      \<comment> \<open>ValueError: PEFT model id cannot be empty\<close>
  | PeftTypeUnsupported string
      \<comment> \<open>RuntimeError: PEFT type not yet supported in FlexFlow\<close>
  | PeftNoBaseModel string
      \<comment> \<open>ValueError: PEFT model does not have an associated base model\<close>
  | PeftBaseModelMismatch "string option" string
      \<comment> \<open>RuntimeError: attempting to add PEFT with base model name .. to LLM ..\<close>
  | SourceUnreachable string
      \<comment> \<open>whatever the HuggingFace hub query or download raises\<close>
  | NotCompiled
      \<comment> \<open>AttributeError: the LLM object has no attribute model\<close>
  | SplitSizeMismatch nat "int list"
      \<comment> \<open>RuntimeError of torch.split: the split sizes do not add up to the dimension\<close>
  | ZeroDivisionError
      \<comment> \<open>ZeroDivisionError: integer division by zero\<close>
  | UnpackMismatch
      \<comment> \<open>ValueError: the right-hand side does not have three values to unpack\<close>
  | FileExists
      \<comment> \<open>FileExistsError: a file stands where a directory is to be made\<close>
  | NotADirectory
      \<comment> \<open>NotADirectoryError: a file stands where a directory is expected\<close>
  | IsADirectory
      \<comment> \<open>IsADirectoryError: a directory stands where a file is expected\<close>
  | FileNotFound
      \<comment> \<open>FileNotFoundError: the path, or the directory that should hold it, does not exist\<close>
  | SameFile
      \<comment> \<open>shutil.SameFileError: source and target of a copy are the same file\<close>
  | RemoveRoot
      \<comment> \<open>OSError: the root directory cannot be removed\<close>
  | ConversionError string
      \<comment> \<open>whatever the model download or the weight conversion raises\<close>

text \<open>
  Modelled from the spec: \<^verbatim>\<open>serve.py\<close> imports neither \<^verbatim>\<open>warnings\<close> nor \<^verbatim>\<open>os\<close> by name;
  both reach it through \<^verbatim>\<open>from flexflow.core import *\<close>, a module that is not part of
  the sources at hand. \<^verbatim>\<open>warnings.warn\<close> is taken to do what the specification says of the
  both-set case, to surface a warning without failing the call. A warning carries the
  two values its message shows.
\<close>

datatype warning = BothBoundsSet int int
  \<comment> \<open>\<open>BothBoundsSet max_new_tokens max_length\<close>\<close>

section \<open>The session state and its collaborators\<close>

text \<open>
  The engine (\<^verbatim>\<open>self.model.ffmodel.generate\<close>) and the tokenizer's chat template are
  external; they are parameters. A tokenizer that declares no template has
  \<^verbatim>\<open>chat_template is None\<close>.
\<close>

record collaborators =
  ffmodel_generate :: "request list \<Rightarrow> error + generation_result list"
  chat_template :: "(pyval \<Rightarrow> string) option"

text \<open>
  What a \<^verbatim>\<open>generate\<close> call can change or show: the warnings issued so far and the batches
  handed to the engine, oldest first. \<^verbatim>\<open>max_seq_length\<close> is set by \<^verbatim>\<open>compile\<close>.
\<close>

record llm =
  max_seq_length :: int
  warnings :: "warning list"
  engine_calls :: "request list list"

section \<open>LLM.\_generate\<close>

text \<open>
  The body of the loop \<^verbatim>\<open>for req in requests\<close>, in two parts. The first is the
  \<^verbatim>\<open>if\<close>/\<^verbatim>\<open>elif\<close> that resolves the two bounds of an inference request; it only assigns
  and warns. The second is the whole body: it reads \<^verbatim>\<open>req.req_type\<close>, which only a
  \<^verbatim>\<open>Request\<close> has, resolves, and then checks the bounds against the sequence length.
\<close>

definition resolve_bounds :: "int \<Rightarrow> request \<Rightarrow> warning list \<times> request" where
  "resolve_bounds msl req =
     (if max_length req = -1 \<and> max_new_tokens req = -1
        then ([], set_max_length (msl - 1) req)
      else if max_length req \<noteq> -1 \<and> max_new_tokens req \<noteq> -1
        then ([BothBoundsSet (max_new_tokens req) (max_length req)], set_max_length (-1) req)
      else ([], req))"

definition check_request :: "int \<Rightarrow> pyval \<Rightarrow> warning list \<times> (error + request)" where
  "check_request msl v =
     (case v of
        PRequest req \<Rightarrow>
          (if req_type req = REQ_INFERENCE then
             (case resolve_bounds msl req of
                (ws, req1) \<Rightarrow>
                  if max_length req1 \<ge> msl \<or> max_new_tokens req1 \<ge> msl
                  then (ws, Inl (BoundsExceeded (max_length req1) (max_new_tokens req1) msl))
                  else (ws, Inr req1))
           else if max_new_tokens req \<noteq> -1 then ([], Inl (FinetuneMaxNewTokens (max_new_tokens req)))
           else
             (let req1 = (if max_length req = -1 then set_max_length (msl - 1) req else req)
              in if max_length req1 \<ge> msl
                 then ([], Inl (FinetuneBoundsExceeded (max_length req1) msl))
                 else ([], Inr req1)))
      | _ \<Rightarrow> ([], Inl NoRequestAttribute))"

text \<open>The loop: requests are checked in order and the first failure ends the call.\<close>

fun check_requests :: "int \<Rightarrow> pyval list \<Rightarrow> warning list \<times> (error + request list)" where
  "check_requests msl [] = ([], Inr [])"
| "check_requests msl (v # vs) =
     (case check_request msl v of
        (ws, Inl e) \<Rightarrow> (ws, Inl e)
      | (ws, Inr r) \<Rightarrow>
          (case check_requests msl vs of
             (ws', Inl e) \<Rightarrow> (ws @ ws', Inl e)
           | (ws', Inr rs) \<Rightarrow> (ws @ ws', Inr (r # rs))))"

text \<open>
  \<^verbatim>\<open>LLM._generate\<close>: an empty list returns at once; otherwise the loop runs and the
  resolved requests go to the engine in one call.
\<close>

definition priv_generate ::
  "collaborators \<Rightarrow> llm \<Rightarrow> pyval list \<Rightarrow> llm \<times> (error + generation_result list)" where
  "priv_generate c st requests =
     (if length requests = 0 then (st, Inr [])
      else
        (case check_requests (max_seq_length st) requests of
           (ws, Inl e) \<Rightarrow> (st\<lparr>warnings := warnings st @ ws\<rparr>, Inl e)
         | (ws, Inr rs) \<Rightarrow>
             (st\<lparr>warnings := warnings st @ ws, engine_calls := engine_calls st @ [rs]\<rparr>,
              ffmodel_generate c rs)))"

section \<open>Chat prompts\<close>

text \<open>What \<^verbatim>\<open>for message in messages\<close> iterates over, and \<^verbatim>\<open>len\<close>.\<close>

fun py_iter :: "pyval \<Rightarrow> error + pyval list" where
  "py_iter (PList xs) = Inr xs"
| "py_iter (PStr s) = Inr (map (\<lambda>ch. PStr [ch]) s)"
| "py_iter (PDict kvs) = Inr (map (\<lambda>kv. PStr (fst kv)) kvs)"
| "py_iter v = Inl NotIterable"

fun py_len :: "pyval \<Rightarrow> error + nat" where
  "py_len (PStr s) = Inr (length s)"
| "py_len (PList xs) = Inr (length xs)"
| "py_len (PDict kvs) = Inr (length kvs)"
| "py_len v = Inl NoLength"

fun is_chat_message :: "pyval \<Rightarrow> bool" where
  "is_chat_message (PDict kvs) = (''role'' \<in> set (map fst kvs) \<and> ''content'' \<in> set (map fst kvs))"
| "is_chat_message v = False"

text \<open>
  \<^verbatim>\<open>LLM.__chat2prompt\<close>. The tokenizer is loaded on first use and kept; loading it is
  the collaborator's business, and only its template matters here.
\<close>

definition chat2prompt :: "collaborators \<Rightarrow> pyval \<Rightarrow> error + string" where
  "chat2prompt c messages =
     (case py_iter messages of
        Inl e \<Rightarrow> Inl e
      | Inr ms \<Rightarrow>
          if \<not> list_all is_chat_message ms then Inl InvalidMessage
          else (case chat_template c of
                  None \<Rightarrow> Inl NoChatTemplate
                | Some render \<Rightarrow> Inr (render messages)))"

text \<open>The comprehension \<^verbatim>\<open>[self.__chat2prompt(m) for m in ...]\<close>: the first failure raises.\<close>

fun chat2prompts :: "collaborators \<Rightarrow> pyval list \<Rightarrow> error + string list" where
  "chat2prompts c [] = Inr []"
| "chat2prompts c (m # ms) =
     (case chat2prompt c m of
        Inl e \<Rightarrow> Inl e
      | Inr p \<Rightarrow> (case chat2prompts c ms of Inl e \<Rightarrow> Inl e | Inr ps \<Rightarrow> Inr (p # ps)))"

text \<open>
  \<^verbatim>\<open>LLM.__output2chat_response\<close>: after the length assertion, the loop over
  \<^verbatim>\<open>range(len(outputs))\<close> cuts \<^verbatim>\<open>len(requests[i].prompt)\<close> characters off each output.
\<close>

fun strip_prompts :: "request list \<Rightarrow> generation_result list \<Rightarrow> error + generation_result list" where
  "strip_prompts rs [] = Inr []"
| "strip_prompts [] (out # outs) = Inl OutputCountMismatch"
| "strip_prompts (r # rs) (out # outs) =
     (case py_len (prompt r) of
        Inl e \<Rightarrow> Inl e
      | Inr n \<Rightarrow>
          (case strip_prompts rs outs of
             Inl e \<Rightarrow> Inl e
           | Inr outs' \<Rightarrow> Inr (out\<lparr>output_text := drop n (output_text out)\<rparr> # outs')))"

definition output2chat_response ::
  "request list \<Rightarrow> generation_result list \<Rightarrow> error + generation_result list" where
  "output2chat_response requests outputs =
     (if length requests \<noteq> length outputs then Inl OutputCountMismatch
      else strip_prompts requests outputs)"

section \<open>LLM.generate\<close>

text \<open>
  The value \<^verbatim>\<open>generate\<close> returns is a list of results or, where the function falls off
  its end, \<^verbatim>\<open>None\<close>.
\<close>

definition returning ::
  "llm \<times> (error + generation_result list) \<Rightarrow> llm \<times> (error + generation_result list option)" where
  "returning res = (fst res, map_sum id Some (snd res))"

definition chat_reply ::
  "collaborators \<Rightarrow> llm \<Rightarrow> request list \<Rightarrow> llm \<times> (error + generation_result list option)" where
  "chat_reply c st rs =
     (case priv_generate c st (map PRequest rs) of
        (st', Inl e) \<Rightarrow> (st', Inl e)
      | (st', Inr outputs) \<Rightarrow> (st', map_sum id Some (output2chat_response rs outputs)))"

definition generate ::
  "collaborators \<Rightarrow> llm \<Rightarrow> pyval \<Rightarrow> int \<Rightarrow> int \<Rightarrow> llm \<times> (error + generation_result list option)" where
  "generate c st requests_or_prompts ml mnt =
     (case requests_or_prompts of
        PStr s \<Rightarrow>
          if length s = 0 then (st, Inr (Some []))
          else returning (priv_generate c st [PRequest (Request REQ_INFERENCE (PStr s) ml mnt True)])
      | PRequest r \<Rightarrow> returning (priv_generate c st [PRequest r])
      | PList xs \<Rightarrow>
          (case xs of
             [] \<Rightarrow> (st, Inr (Some []))
           | x # _ \<Rightarrow>
               (case x of
                  PStr _ \<Rightarrow>
                    returning (priv_generate c st
                      (map (\<lambda>req. PRequest (Request REQ_INFERENCE req ml mnt True)) xs))
                | PDict _ \<Rightarrow>
                    (case chat2prompt c (PList xs) of
                       Inl e \<Rightarrow> (st, Inl e)
                     | Inr p \<Rightarrow> chat_reply c st [Request REQ_INFERENCE (PStr p) ml mnt False])
                | PList _ \<Rightarrow>
                    (case chat2prompts c xs of
                       Inl e \<Rightarrow> (st, Inl e)
                     | Inr ps \<Rightarrow>
                         chat_reply c st (map (\<lambda>p. Request REQ_INFERENCE (PStr p) ml mnt False) ps))
                | PRequest _ \<Rightarrow> returning (priv_generate c st xs)
                | _ \<Rightarrow> (st, Inr None)))
      | _ \<Rightarrow> (st, Inl BadInputType))"

section \<open>A concrete session for the worked instances\<close>

text \<open>
  An engine that echoes each prompt and appends a fixed continuation, a tokenizer whose
  template writes one line per message, and a freshly compiled session with the default
  sequence length.
\<close>

definition demo_engine :: "request list \<Rightarrow> error + generation_result list" where
  "demo_engine rs =
     Inr (map (\<lambda>r. \<lparr>output_text = (case prompt r of PStr p \<Rightarrow> p @ ''ok'' | _ \<Rightarrow> [])\<rparr>) rs)"

definition demo_collaborators :: collaborators where
  "demo_collaborators = \<lparr>ffmodel_generate = demo_engine, chat_template = None\<rparr>"

definition demo_llm :: llm where
  "demo_llm = \<lparr>max_seq_length = 256, warnings = [], engine_calls = []\<rparr>"

text \<open>A template that writes each message's content between angle brackets.\<close>

definition demo_template :: "pyval \<Rightarrow> string" where
  "demo_template v =
     (case v of
        PList ms \<Rightarrow>
          concat (map (\<lambda>m. case m of
                              PDict kvs \<Rightarrow> (case map_of kvs ''content'' of
                                              Some (PStr s) \<Rightarrow> ''<'' @ s @ ''>''
                                            | _ \<Rightarrow> [])
                            | _ \<Rightarrow> []) ms)
      | _ \<Rightarrow> [])"

definition demo_chat :: collaborators where
  "demo_chat = \<lparr>ffmodel_generate = demo_engine, chat_template = Some demo_template\<rparr>"

section \<open>LLM.register\_peft\_adapter\<close>

text \<open>
  \<^verbatim>\<open>LoraLinearConfig\<close> is a class of the engine binding. The fields below are the ones
  \<^verbatim>\<open>register_peft_adapter\<close> reads; \<^verbatim>\<open>lora_alpha\<close> and \<^verbatim>\<open>lora_dropout\<close> are floats that are
  only copied into the synthesised configuration and never examined. \<^verbatim>\<open>peft_model_id\<close>
  may be \<^verbatim>\<open>None\<close>.
\<close>

record lora_linear_config =
  peft_model_id :: "string option"
  trainable :: bool
  init_lora_weights :: bool
  rank :: int
  target_modules :: "string list"

text \<open>
  What the function reads of a \<^verbatim>\<open>PeftConfig\<close>: its type, whether \<^verbatim>\<open>to_dict()\<close> has the key
  \<^verbatim>\<open>base_model_name_or_path\<close>, and the value of that attribute (possibly \<^verbatim>\<open>None\<close>).
\<close>

record peft_config =
  peft_type :: string
  has_base_model_key :: bool
  base_model_name_or_path :: "string option"

record peft_entry =
  entry_peft_config :: peft_config
  entry_peft_type :: string
  ff_peft_model_id :: nat

text \<open>The two engine calls of a registration, logged in order.\<close>

datatype peft_call = FFCompile lora_linear_config | RegisterAdapter lora_linear_config

text \<open>
  The collaborators: \<^verbatim>\<open>PeftConfig.from_pretrained\<close>, which fetches the adapter's own
  configuration from its source, and \<^verbatim>\<open>ffmodel.register_peft_adapter\<close>, which returns the
  engine's handle.
\<close>

record peft_collaborators =
  from_pretrained :: "string \<Rightarrow> error + peft_config"
  ffmodel_register_peft_adapter :: "lora_linear_config \<Rightarrow> error + nat"

text \<open>
  What \<^verbatim>\<open>LLM.__init__\<close> fixes for the life of the object. The constructor asserts that
  the data type is one of the two below.
\<close>

datatype data_type = DT_FLOAT | DT_HALF

record llm_settings =
  model_name :: string
  data_type :: data_type
  cache_path :: string
  refresh_cache :: bool

text \<open>
  The part of the session that registration touches in addition: whether
  \<^verbatim>\<open>compile\<close> has created \<^verbatim>\<open>self.model\<close>, the dictionary \<^verbatim>\<open>self.pefts\<close> and the engine
  calls made so far.
\<close>

record peft_session = llm_settings +
  model_compiled :: bool
  pefts :: "lora_linear_config \<rightharpoonup> peft_entry"
  peft_calls :: "peft_call list"

text \<open>The configuration built locally for a trainable adapter with fresh weights.\<close>

definition synthesised_config :: "peft_session \<Rightarrow> peft_config" where
  "synthesised_config st =
     \<lparr>peft_type = ''LORA'', has_base_model_key = True,
      base_model_name_or_path = Some (model_name st)\<rparr>"

text \<open>
  \<^verbatim>\<open>LLM.register_peft_adapter\<close>, check by check in the source's order. The dictionary
  literal stored in \<^verbatim>\<open>self.pefts\<close> calls the engine before the assignment happens.
\<close>

definition register_peft_adapter ::
  "peft_collaborators \<Rightarrow> peft_session \<Rightarrow> lora_linear_config option \<Rightarrow>
     peft_session \<times> (error + unit)" where
  "register_peft_adapter c st lora_config =
     (case lora_config of
        None \<Rightarrow> (st, Inl LoraConfigNone)
      | Some cfg \<Rightarrow>
          if length (case peft_model_id cfg of None \<Rightarrow> [] | Some pid \<Rightarrow> pid) = 0
          then (st, Inl PeftIdEmpty)
          else
            (case (if trainable cfg = False \<or> \<not> init_lora_weights cfg
                   then from_pretrained c (the (peft_model_id cfg))
                   else Inr (synthesised_config st)) of
               Inl e \<Rightarrow> (st, Inl e)
             | Inr pc \<Rightarrow>
                 if peft_type pc \<noteq> ''LORA'' then (st, Inl (PeftTypeUnsupported (peft_type pc)))
                 else if \<not> has_base_model_key pc
                   then (st, Inl (PeftNoBaseModel (the (peft_model_id cfg))))
                 else if base_model_name_or_path pc \<noteq> Some (model_name st)
                   then (st, Inl (PeftBaseModelMismatch (base_model_name_or_path pc) (model_name st)))
                 else
                   (let st1 = st\<lparr>peft_calls := peft_calls st @ [FFCompile cfg]\<rparr>
                    in if \<not> model_compiled st1 then (st1, Inl NotCompiled)
                       else
                         (let st2 = st1\<lparr>peft_calls := peft_calls st1 @ [RegisterAdapter cfg]\<rparr>
                          in case ffmodel_register_peft_adapter c cfg of
                               Inl e \<Rightarrow> (st2, Inl e)
                             | Inr handle \<Rightarrow>
                                 (st2\<lparr>pefts := (pefts st2)(cfg \<mapsto>
                                     \<lparr>entry_peft_config = pc, entry_peft_type = peft_type pc,
                                      ff_peft_model_id = handle\<rparr>)\<rparr>,
                                  Inr ())))))"

text \<open>
  A hub with two adapters for the worked instances: \<^verbatim>\<open>acme/lora-a\<close> is a LoRA adapter of
  \<^verbatim>\<open>acme/base\<close>, \<^verbatim>\<open>acme/ia3-b\<close> is an adapter of another type trained on another model,
  and \<^verbatim>\<open>acme/lora-c\<close> is a LoRA adapter of another model.
\<close>

definition demo_hub :: peft_collaborators where
  "demo_hub =
     \<lparr>from_pretrained = (\<lambda>pid.
         if pid = ''acme/lora-a''
           then Inr \<lparr>peft_type = ''LORA'', has_base_model_key = True,
                     base_model_name_or_path = Some ''acme/base''\<rparr>
         else if pid = ''acme/ia3-b''
           then Inr \<lparr>peft_type = ''IA3'', has_base_model_key = True,
                     base_model_name_or_path = Some ''acme/other''\<rparr>
         else if pid = ''acme/lora-c''
           then Inr \<lparr>peft_type = ''LORA'', has_base_model_key = True,
                     base_model_name_or_path = Some ''acme/other''\<rparr>
         else Inl (SourceUnreachable pid)),
      ffmodel_register_peft_adapter = (\<lambda>cfg. Inr 7)\<rparr>"

definition demo_session :: peft_session where
  "demo_session =
     \<lparr>model_name = ''acme/base'', data_type = DT_HALF, cache_path = ''/cache'',
      refresh_cache = False, model_compiled = True, pefts = Map.empty, peft_calls = []\<rparr>"

definition demo_adapter :: "string \<Rightarrow> lora_linear_config" where
  "demo_adapter pid =
     \<lparr>peft_model_id = Some pid, trainable = False, init_lora_weights = False, rank = 8,
      target_modules = [''down_proj'']\<rparr>"

section \<open>Falcon weight conversion\<close>

text \<open>
  Python's \<^verbatim>\<open>old in s\<close> and \<^verbatim>\<open>s.replace(old, new)\<close> on strings: every non-overlapping
  occurrence, leftmost first; an empty \<^verbatim>\<open>old\<close> matches before every character and at
  the end.
\<close>

fun contains :: "string \<Rightarrow> string \<Rightarrow> bool" where
  "contains pat [] = (pat = [])"
| "contains pat (ch # s) = (take (length pat) (ch # s) = pat \<or> contains pat s)"

function py_replace :: "string \<Rightarrow> string \<Rightarrow> string \<Rightarrow> string" where
  "py_replace old new [] = (if old = [] then new else [])"
| "py_replace old new (ch # s) =
     (if old = [] then new @ ch # py_replace old new s
      else if take (length old) (ch # s) = old
        then new @ py_replace old new (drop (length old) (ch # s))
      else ch # py_replace old new s)"
  by pat_completeness auto
termination
  by (relation "measure (\<lambda>(old, new, s). length s)") auto

text \<open>\<^verbatim>\<open>FlexFlowFalcon.convert_hf_weight_name\<close>.\<close>

definition convert_hf_weight_name :: "string \<Rightarrow> string" where
  "convert_hf_weight_name name =
     py_replace ''self_attention.dense'' ''self_attention.o_proj''
       (py_replace ''transformer.'' ''''
         (py_replace ''transformer.h.'' ''layers.'' name))"

text \<open>
  A tensor is the list of its slices along axis 0 (its rows), each row the flat list of
  its elements; the element type stands for the bit pattern of one number.
  \<^verbatim>\<open>torch.split(t, sizes, 0)\<close> cuts the rows into consecutive chunks of the given sizes and
  raises unless the sizes are non-negative and add up to the number of rows.
\<close>

fun chunks :: "'a list \<Rightarrow> nat list \<Rightarrow> 'a list list" where
  "chunks xs [] = []"
| "chunks xs (n # ns) = take n xs # chunks (drop n xs) ns"

definition torch_split :: "'a list \<Rightarrow> int list \<Rightarrow> error + 'a list list" where
  "torch_split t sizes =
     (if list_ex (\<lambda>s. s < 0) sizes \<or> sum_list sizes \<noteq> int (length t)
      then Inl (SplitSizeMismatch (length t) sizes)
      else Inr (chunks t (map nat sizes)))"

text \<open>
  The part of the HuggingFace configuration and model that the conversion reads.
  \<^verbatim>\<open>n_head\<close> is present in \<^verbatim>\<open>config.__dict__\<close> or not.
\<close>

record falcon_config =
  hidden_size :: int
  n_head_attr :: "int option"
  num_attention_heads :: int

record 'a hf_model =
  config :: falcon_config
  named_parameters :: "(string \<times> 'a list list) list"
  lm_head_weight :: "'a list list"

text \<open>
  The destination folder is the list of files written, in order, each with the flat
  data \<^verbatim>\<open>tofile\<close> writes (the rows one after the other). Names are relative to the
  folder.
\<close>

type_synonym 'a files = "(string \<times> 'a list) list"

text \<open>The body of the loop over \<^verbatim>\<open>model.named_parameters()\<close>.\<close>

definition convert_parameter ::
  "falcon_config \<Rightarrow> int \<Rightarrow> 'a files \<Rightarrow> string \<times> 'a list list \<Rightarrow> 'a files \<times> (error + unit)" where
  "convert_parameter cfg n_head fs np =
     (let name = convert_hf_weight_name (fst np); params = snd np
      in if contains ''self_attention.query_key_value'' name then
           (let name_q = py_replace ''self_attention.query_key_value'' ''self_attention.q_proj'' name;
                name_k = py_replace ''self_attention.query_key_value'' ''self_attention.k_proj'' name;
                name_v = py_replace ''self_attention.query_key_value'' ''self_attention.v_proj'' name
            in if n_head = 0 then (fs, Inl ZeroDivisionError)
               else
                 (case torch_split params
                         [hidden_size cfg, hidden_size cfg div n_head, hidden_size cfg div n_head] of
                    Inl e \<Rightarrow> (fs, Inl e)
                  | Inr parts \<Rightarrow>
                      (case parts of
                         [q, k, v] \<Rightarrow>
                           (fs @ [(name_q, concat q), (name_k, concat k), (name_v, concat v)], Inr ())
                       | _ \<Rightarrow> (fs, Inl UnpackMismatch))))
         else (fs @ [(name, concat params)], Inr ()))"

fun convert_parameters ::
  "falcon_config \<Rightarrow> int \<Rightarrow> 'a files \<Rightarrow> (string \<times> 'a list list) list \<Rightarrow> 'a files \<times> (error + unit)" where
  "convert_parameters cfg n_head fs [] = (fs, Inr ())"
| "convert_parameters cfg n_head fs (np # nps) =
     (case convert_parameter cfg n_head fs np of
        (fs', Inl e) \<Rightarrow> (fs', Inl e)
      | (fs', Inr u) \<Rightarrow> convert_parameters cfg n_head fs' nps)"

text \<open>\<^verbatim>\<open>FlexFlowFalcon.convert_hf_model\<close>; the head's weight is written last.\<close>

definition convert_hf_model :: "'a hf_model \<Rightarrow> 'a files \<Rightarrow> 'a files \<times> (error + unit)" where
  "convert_hf_model model fs =
     (let n_head = (case n_head_attr (config model) of
                      Some n \<Rightarrow> n
                    | None \<Rightarrow> num_attention_heads (config model))
      in case convert_parameters (config model) n_head fs (named_parameters model) of
           (fs', Inl e) \<Rightarrow> (fs', Inl e)
         | (fs', Inr u) \<Rightarrow> (fs' @ [(''lm_head.weight'', concat (lm_head_weight model))], Inr ()))"

text \<open>
  Two small Falcon models with \<^verbatim>\<open>hidden_size = 4\<close> and two heads, each with one fused
  projection of one-element rows numbered from 0: the first has the \<open>4 + 2 + 2\<close> rows of
  a multi-query projection, the second has \<open>3 * 4\<close> rows.
\<close>

definition demo_falcon :: "nat \<Rightarrow> nat hf_model" where
  "demo_falcon rows =
     \<lparr>config = \<lparr>hidden_size = 4, n_head_attr = Some 2, num_attention_heads = 2\<rparr>,
      named_parameters =
        [(''transformer.h.0.self_attention.query_key_value.weight'', map (\<lambda>i. [i]) [0..<rows])],
      lm_head_weight = [[100], [101]]\<rparr>"

section \<open>The resource cache\<close>

datatype cached_resource_type = TOKENIZER | WEIGHTS

text \<open>
  \<^verbatim>\<open>os.path.join\<close> on POSIX paths: a component that starts with a slash replaces what
  came before it. \<^verbatim>\<open>str.lower\<close> is modelled on ASCII letters.
\<close>

definition join2 :: "string \<Rightarrow> string \<Rightarrow> string" where
  "join2 path b =
     (if take 1 b = ''/'' then b
      else if path = [] \<or> last path = CHR ''/'' then path @ b
      else path @ ''/'' @ b)"

definition path_join :: "string \<Rightarrow> string list \<Rightarrow> string" where
  "path_join a ps = foldl join2 a ps"

definition lower_char :: "char \<Rightarrow> char" where
  "lower_char ch =
     (case map_of (zip ''ABCDEFGHIJKLMNOPQRSTUVWXYZ'' ''abcdefghijklmnopqrstuvwxyz'') ch of
        None \<Rightarrow> ch
      | Some l \<Rightarrow> l)"

definition py_lower :: "string \<Rightarrow> string" where
  "py_lower s = map lower_char s"

text \<open>
  The file system is one tree, shared by the model directories the revisions are
  computed from and by the cache folders. A file has a modification time and a content;
  a directory has a modification time and its entries, in the order \<^verbatim>\<open>os.listdir\<close>
  returns them; a new entry is listed last. A modification time is the text that \<^verbatim>\<open>str\<close> prints for the float
  \<^verbatim>\<open>os.path.getmtime\<close> returns, which is all this code does with it. The state also
  counts the writes made so far, which is where new modification times come from.
\<close>

datatype node = File string string | Dir string "(string \<times> node) list"

fun mtime_of :: "node \<Rightarrow> string" where
  "mtime_of (File t text) = t"
| "mtime_of (Dir t kids) = t"

record filesystem =
  root :: node
  ticks :: nat

text \<open>
  The world outside the file system: the home directory expansion, the working
  directory that relative paths start from, the clock (the time printed at the n-th
  write), \<^verbatim>\<open>HfApi().model_info(name).sha\<close>, and
  \<^verbatim>\<open>hashlib.md5(text.encode("utf-8")).hexdigest()\<close>. \<^verbatim>\<open>snapshot_download\<close> returns the
  folder of a downloaded snapshot; the hub's snapshot store is kept apart from the tree,
  and \<^verbatim>\<open>snapshot_file\<close> gives the content of a file of such a folder, if it has the file.
\<close>

record environment =
  expanduser :: "string \<Rightarrow> string"
  cwd :: string
  time_text :: "nat \<Rightarrow> string"
  model_info_sha :: "string \<Rightarrow> error + string"
  md5_hexdigest :: "string \<Rightarrow> string"
  snapshot_download :: "string \<Rightarrow> error + string"
  snapshot_file :: "string \<Rightarrow> string \<Rightarrow> string option"

text \<open>
  The place a path names: the path is taken from the working directory unless it is
  absolute, and cut at the slashes; empty components count for nothing. The components
  \<^verbatim>\<open>.\<close> and \<^verbatim>\<open>..\<close> and symbolic links are not interpreted.
\<close>

fun split_slash :: "string \<Rightarrow> string list" where
  "split_slash [] = [[]]"
| "split_slash (ch # s) =
     (if ch = CHR ''/'' then [] # split_slash s
      else (case split_slash s of [] \<Rightarrow> [[ch]] | x # xs \<Rightarrow> (ch # x) # xs))"

definition components :: "string \<Rightarrow> string list" where
  "components path = filter (\<lambda>x. x \<noteq> []) (split_slash path)"

definition resolve :: "environment \<Rightarrow> string \<Rightarrow> string list" where
  "resolve env path = components (join2 (cwd env) path)"

fun lookup :: "node \<Rightarrow> string list \<Rightarrow> node option" where
  "lookup n [] = Some n"
| "lookup (File t text) (x # xs) = None"
| "lookup (Dir t kids) (x # xs) =
     (case map_of kids x of None \<Rightarrow> None | Some k \<Rightarrow> lookup k xs)"

definition set_child :: "(string \<times> node) list \<Rightarrow> string \<Rightarrow> node \<Rightarrow> (string \<times> node) list" where
  "set_child kids x k = map (\<lambda>e. if fst e = x then (x, k) else e) kids"

text \<open>
  The three writes the cache makes, on the tree, at time \<open>t\<close>.
  \<^verbatim>\<open>os.makedirs(path, exist_ok=True)\<close> creates the missing directories along the path;
  \<^verbatim>\<open>shutil.rmtree(path)\<close> removes a directory with all below it; opening a file for
  writing replaces its content or creates it in its directory. Adding or removing an
  entry changes the modification time of the directory that holds it.
\<close>

fun mkdirs :: "string \<Rightarrow> node \<Rightarrow> string list \<Rightarrow> error + node" where
  "mkdirs t (File t0 text) xs = Inl (if xs = [] then FileExists else NotADirectory)"
| "mkdirs t (Dir t0 kids) [] = Inr (Dir t0 kids)"
| "mkdirs t (Dir t0 kids) (x # xs) =
     (case map_of kids x of
        None \<Rightarrow>
          (case mkdirs t (Dir t []) xs of
             Inl e \<Rightarrow> Inl e
           | Inr k \<Rightarrow> Inr (Dir t (kids @ [(x, k)])))
      | Some k0 \<Rightarrow>
          (case mkdirs t k0 xs of
             Inl e \<Rightarrow> Inl e
           | Inr k \<Rightarrow> Inr (Dir t0 (set_child kids x k))))"

fun rmtree :: "string \<Rightarrow> node \<Rightarrow> string list \<Rightarrow> error + node" where
  "rmtree t n [] = Inl RemoveRoot"
| "rmtree t (File t0 text) (x # xs) = Inl NotADirectory"
| "rmtree t (Dir t0 kids) (x # xs) =
     (case map_of kids x of
        None \<Rightarrow> Inl FileNotFound
      | Some k0 \<Rightarrow>
          if xs = [] then
            (case k0 of
               File t1 text \<Rightarrow> Inl NotADirectory
             | Dir t1 kids1 \<Rightarrow> Inr (Dir t (filter (\<lambda>e. fst e \<noteq> x) kids)))
          else
            (case rmtree t k0 xs of
               Inl e \<Rightarrow> Inl e
             | Inr k \<Rightarrow> Inr (Dir t0 (set_child kids x k))))"

fun write_file :: "string \<Rightarrow> string \<Rightarrow> node \<Rightarrow> string list \<Rightarrow> error + node" where
  "write_file text t n [] = Inl IsADirectory"
| "write_file text t (File t0 text0) (x # xs) = Inl NotADirectory"
| "write_file text t (Dir t0 kids) (x # xs) =
     (if xs = [] then
        (case map_of kids x of
           None \<Rightarrow> Inr (Dir t (kids @ [(x, File t text)]))
         | Some (File t1 text1) \<Rightarrow> Inr (Dir t0 (set_child kids x (File t text)))
         | Some (Dir t1 kids1) \<Rightarrow> Inl IsADirectory)
      else
        (case map_of kids x of
           None \<Rightarrow> Inl FileNotFound
         | Some k0 \<Rightarrow>
             (case write_file text t k0 xs of
                Inl e \<Rightarrow> Inl e
              | Inr k \<Rightarrow> Inr (Dir t0 (set_child kids x k)))))"

text \<open>A write on the state: it happens at the clock's present time, which then moves on.\<close>

definition apply_write ::
  "environment \<Rightarrow> filesystem \<Rightarrow> (string \<Rightarrow> node \<Rightarrow> string list \<Rightarrow> error + node) \<Rightarrow> string list \<Rightarrow>
     filesystem \<times> (error + unit)" where
  "apply_write env fs op place =
     (case op (time_text env (ticks fs)) (root fs) place of
        Inl e \<Rightarrow> (fs, Inl e)
      | Inr r \<Rightarrow> (\<lparr>root = r, ticks = Suc (ticks fs)\<rparr>, Inr ()))"

text \<open>
  \<^verbatim>\<open>"".join(text.split())\<close> drops every whitespace character; on ASCII these are the
  codes 9 to 13, 28 to 31 and 32.
\<close>

definition is_space :: "char \<Rightarrow> bool" where
  "is_space ch =
     (let n = (of_char ch :: nat) in (9 \<le> n \<and> n \<le> 13) \<or> (28 \<le> n \<and> n \<le> 32))"

definition strip_whitespace :: "string \<Rightarrow> string" where
  "strip_whitespace text = filter (\<lambda>ch. \<not> is_space ch) text"

text \<open>
  \<^verbatim>\<open>str(state)\<close> for the list \<^verbatim>\<open>files + [mtimes]\<close>: the \<^verbatim>\<open>repr\<close> of each name, then the
  printed modification times, separated by a comma and a space, in brackets. The
  \<^verbatim>\<open>repr\<close> of a string is written out for ASCII names: it quotes with an apostrophe
  unless the string has an apostrophe and no double quote, and escapes the backslash,
  the quote in use, tab, newline and carriage return; other control characters, which
  it prints as hexadecimal escapes, are left as they are here.
\<close>

definition escape_char :: "char \<Rightarrow> char \<Rightarrow> string" where
  "escape_char quote ch =
     (if ch = CHR 0x5C then [CHR 0x5C, CHR 0x5C]
      else if ch = quote then [CHR 0x5C, quote]
      else if ch = CHR 0x09 then [CHR 0x5C, CHR ''t'']
      else if ch = CHR 0x0A then [CHR 0x5C, CHR ''n'']
      else if ch = CHR 0x0D then [CHR 0x5C, CHR ''r'']
      else [ch])"

definition py_repr_str :: "string \<Rightarrow> string" where
  "py_repr_str s =
     (let quote = (if CHR 0x27 \<in> set s \<and> CHR 0x22 \<notin> set s then CHR 0x22 else CHR 0x27)
      in [quote] @ concat (map (escape_char quote) s) @ [quote])"

fun comma_join :: "string list \<Rightarrow> string" where
  "comma_join [] = []"
| "comma_join [x] = x"
| "comma_join (x # y # ys) = x @ '', '' @ comma_join (y # ys)"

definition py_str_state :: "string list \<Rightarrow> string list \<Rightarrow> string" where
  "py_str_state files mtimes = ''['' @ comma_join (map py_repr_str files @ mtimes) @ '']''"

text \<open>
  \<^verbatim>\<open>LLM.__get_revision_hashes\<close>, in its two halves. The stored revision is read from
  \<^verbatim>\<open>rev_sha.txt\<close> in the folder, if that exists. The latest revision of a local directory
  is the digest of the printed state, the entries of the directory in listing order with
  their modification times; otherwise it is asked of the hub, and the name asked for is
  \<^verbatim>\<open>self.model_name\<close>, not the function's argument.
\<close>

definition stored_revision :: "filesystem \<Rightarrow> string list \<Rightarrow> error + string option" where
  "stored_revision fs folder =
     (case lookup (root fs) (folder @ [''rev_sha.txt'']) of
        None \<Rightarrow> Inr None
      | Some (File t text) \<Rightarrow> Inr (Some (strip_whitespace text))
      | Some (Dir t kids) \<Rightarrow> Inl IsADirectory)"

definition listing_of :: "(string \<times> node) list \<Rightarrow> (string \<times> string) list" where
  "listing_of kids = map (\<lambda>e. (fst e, mtime_of (snd e))) kids"

definition local_revision :: "environment \<Rightarrow> (string \<times> string) list \<Rightarrow> string" where
  "local_revision env listing =
     (let files = map fst listing;
          state_text = py_str_state files (map snd listing)
      in md5_hexdigest env state_text)"

definition latest_revision_of ::
  "'a llm_settings_scheme \<Rightarrow> environment \<Rightarrow> filesystem \<Rightarrow> string \<Rightarrow> error + string" where
  "latest_revision_of self env fs name =
     (case lookup (root fs) (resolve env name) of
        Some (Dir t kids) \<Rightarrow> Inr (local_revision env (listing_of kids))
      | Some (File t text) \<Rightarrow> model_info_sha env (model_name self)
      | None \<Rightarrow> model_info_sha env (model_name self))"

definition get_revision_hashes ::
  "'a llm_settings_scheme \<Rightarrow> environment \<Rightarrow> filesystem \<Rightarrow> string \<Rightarrow> string \<Rightarrow>
     error + (string option \<times> string)" where
  "get_revision_hashes self env fs name folder =
     (case stored_revision fs (resolve env folder) of
        Inl e \<Rightarrow> Inl e
      | Inr ff_revision \<Rightarrow>
          (case latest_revision_of self env fs name of
             Inl e \<Rightarrow> Inl e
           | Inr latest \<Rightarrow> Inr (ff_revision, latest)))"

text \<open>
  \<^verbatim>\<open>LLM.__get_resource_path\<close>; the enumeration has no third value, so the final
  \<^verbatim>\<open>raise\<close> is out of reach.
\<close>

definition get_resource_path ::
  "'a llm_settings_scheme \<Rightarrow> environment \<Rightarrow> string \<Rightarrow> cached_resource_type \<Rightarrow> string" where
  "get_resource_path self env name resource_type =
     (case resource_type of
        WEIGHTS \<Rightarrow>
          path_join (expanduser env (cache_path self))
            [''weights'', py_lower name,
             (if data_type self = DT_FLOAT then ''full-precision'' else ''half-precision'')]
      | TOKENIZER \<Rightarrow>
          path_join (expanduser env (cache_path self)) [''tokenizers'', py_lower name])"

text \<open>
  The refresh of \<^verbatim>\<open>LLM.__need_cache_refresh\<close>: the folder is removed if it exists,
  created again, and the marker is written straight away.
\<close>

definition refresh_folder ::
  "environment \<Rightarrow> filesystem \<Rightarrow> string list \<Rightarrow> string \<Rightarrow> filesystem \<times> (error + bool)" where
  "refresh_folder env fs folder latest =
     (case (if lookup (root fs) folder = None then (fs, Inr ())
            else apply_write env fs rmtree folder) of
        (fs1, Inl e) \<Rightarrow> (fs1, Inl e)
      | (fs1, Inr u1) \<Rightarrow>
          (case apply_write env fs1 mkdirs folder of
             (fs2, Inl e) \<Rightarrow> (fs2, Inl e)
           | (fs2, Inr u2) \<Rightarrow>
               (case apply_write env fs2 (write_file latest) (folder @ [''rev_sha.txt'']) of
                  (fs3, Inl e) \<Rightarrow> (fs3, Inl e)
                | (fs3, Inr u3) \<Rightarrow> (fs3, Inr True))))"

text \<open>
  \<^verbatim>\<open>LLM.__need_cache_refresh\<close>. The revisions are computed by
  \<^verbatim>\<open>self.__get_revision_hashes(self.model_name, resource_path)\<close>, whatever name the
  caller passed.
\<close>

definition need_cache_refresh ::
  "'a llm_settings_scheme \<Rightarrow> environment \<Rightarrow> filesystem \<Rightarrow> string \<Rightarrow> cached_resource_type \<Rightarrow>
     filesystem \<times> (error + bool)" where
  "need_cache_refresh self env fs name resource_type =
     (let resource_path = get_resource_path self env name resource_type
      in case get_revision_hashes self env fs (model_name self) resource_path of
           Inl e \<Rightarrow> (fs, Inl e)
         | Inr (ff_revision, latest_revision) \<Rightarrow>
             if refresh_cache self \<or> lookup (root fs) (resolve env resource_path) = None
                \<or> ff_revision \<noteq> Some latest_revision
             then refresh_folder env fs (resolve env resource_path) latest_revision
             else (fs, Inr False))"

text \<open>
  \<^verbatim>\<open>LLM.download_hf_weights_if_needed\<close>. The model is loaded by
  \<^verbatim>\<open>AutoModelForCausalLM.from_pretrained\<close>, which reads a local model from the file
  system, and converted into the weights folder by the architecture's
  \<^verbatim>\<open>convert_hf_model\<close>; both can fail, the second after it has written some files.
\<close>

record 'm weight_tools =
  auto_model_from_pretrained :: "string \<Rightarrow> filesystem \<Rightarrow> error + 'm"
  model_class_convert_hf_model :: "'m \<Rightarrow> string \<Rightarrow> filesystem \<Rightarrow> filesystem \<times> (error + unit)"

definition download_and_convert_llm_weights ::
  "'a llm_settings_scheme \<Rightarrow> environment \<Rightarrow> 'm weight_tools \<Rightarrow> filesystem \<Rightarrow> string \<Rightarrow>
     filesystem \<times> (error + unit)" where
  "download_and_convert_llm_weights self env tools fs name =
     (case auto_model_from_pretrained tools name fs of
        Inl e \<Rightarrow> (fs, Inl e)
      | Inr hf_model \<Rightarrow>
          model_class_convert_hf_model tools hf_model (get_resource_path self env name WEIGHTS) fs)"

definition download_hf_weights_if_needed ::
  "'a llm_settings_scheme \<Rightarrow> environment \<Rightarrow> 'm weight_tools \<Rightarrow> filesystem \<Rightarrow>
     filesystem \<times> (error + unit)" where
  "download_hf_weights_if_needed self env tools fs =
     (case need_cache_refresh self env fs (model_name self) WEIGHTS of
        (fs1, Inl e) \<Rightarrow> (fs1, Inl e)
      | (fs1, Inr need_refresh) \<Rightarrow>
          if need_refresh
          then download_and_convert_llm_weights self env tools fs1 (model_name self)
          else (fs1, Inr ()))"

text \<open>
  \<^verbatim>\<open>LLM.download_hf_tokenizer_if_needed\<close>: the tokenizer files that the source folder has
  are copied into the tokenizer folder, in the order of the list. The source folder is
  the model's own directory when \<^verbatim>\<open>os.path.exists(self.model_name)\<close>, and a downloaded
  snapshot otherwise. \<^verbatim>\<open>shutil.copy\<close> refuses to copy a file onto itself and copies
  into the target when that is a directory.
\<close>

definition target_tokenizer_files :: "string list" where
  "target_tokenizer_files =
     [''tokenizer.json'', ''tokenizer_config.json'', ''special_tokens_map.json'',
      ''vocab.json'', ''merges.txt'']"

datatype tokenizer_source = LocalFolder string | Snapshot string

definition copy_into ::
  "environment \<Rightarrow> filesystem \<Rightarrow> string list \<Rightarrow> string \<Rightarrow> string \<Rightarrow> filesystem \<times> (error + unit)" where
  "copy_into env fs tokenizer_path file text =
     (case lookup (root fs) (tokenizer_path @ [file]) of
        Some (Dir t kids) \<Rightarrow> apply_write env fs (write_file text) (tokenizer_path @ [file, file])
      | Some (File t text0) \<Rightarrow> apply_write env fs (write_file text) (tokenizer_path @ [file])
      | None \<Rightarrow> apply_write env fs (write_file text) (tokenizer_path @ [file]))"

definition copy_tokenizer_file ::
  "environment \<Rightarrow> tokenizer_source \<Rightarrow> string list \<Rightarrow> filesystem \<Rightarrow> string \<Rightarrow>
     filesystem \<times> (error + unit)" where
  "copy_tokenizer_file env hf_tokenizer_path tokenizer_path fs file =
     (case hf_tokenizer_path of
        LocalFolder folder \<Rightarrow>
          (case lookup (root fs) (resolve env folder @ [file]) of
             None \<Rightarrow> (fs, Inr ())
           | Some (Dir t kids) \<Rightarrow> (fs, Inl IsADirectory)
           | Some (File t text) \<Rightarrow>
               if resolve env folder = tokenizer_path then (fs, Inl SameFile)
               else copy_into env fs tokenizer_path file text)
      | Snapshot folder \<Rightarrow>
          (case snapshot_file env folder file of
             None \<Rightarrow> (fs, Inr ())
           | Some text \<Rightarrow> copy_into env fs tokenizer_path file text))"

fun copy_tokenizer_files ::
  "environment \<Rightarrow> tokenizer_source \<Rightarrow> string list \<Rightarrow> filesystem \<Rightarrow> string list \<Rightarrow>
     filesystem \<times> (error + unit)" where
  "copy_tokenizer_files env hf_tokenizer_path tokenizer_path fs [] = (fs, Inr ())"
| "copy_tokenizer_files env hf_tokenizer_path tokenizer_path fs (file # files) =
     (case copy_tokenizer_file env hf_tokenizer_path tokenizer_path fs file of
        (fs1, Inl e) \<Rightarrow> (fs1, Inl e)
      | (fs1, Inr u) \<Rightarrow> copy_tokenizer_files env hf_tokenizer_path tokenizer_path fs1 files)"

definition download_hf_tokenizer_if_needed ::
  "'a llm_settings_scheme \<Rightarrow> environment \<Rightarrow> filesystem \<Rightarrow> filesystem \<times> (error + unit)" where
  "download_hf_tokenizer_if_needed self env fs =
     (case need_cache_refresh self env fs (model_name self) TOKENIZER of
        (fs1, Inl e) \<Rightarrow> (fs1, Inl e)
      | (fs1, Inr need_refresh) \<Rightarrow>
          if need_refresh
          then
            (case (if lookup (root fs1) (resolve env (model_name self)) = None
                   then map_sum id Snapshot (snapshot_download env (model_name self))
                   else Inr (LocalFolder (model_name self))) of
               Inl e \<Rightarrow> (fs1, Inl e)
             | Inr hf_tokenizer_path \<Rightarrow>
                 copy_tokenizer_files env hf_tokenizer_path
                   (resolve env (get_resource_path self env (model_name self) TOKENIZER))
                   fs1 target_tokenizer_files)
          else (fs1, Inr ()))"

text \<open>
  \<^verbatim>\<open>LLM.download_peft_adapter_if_needed\<close>, as far as the refresh decision: the adapter's
  weights folder is checked under the adapter's id, and the download runs when a
  refresh is needed.
\<close>

definition download_peft_adapter_if_needed ::
  "'a llm_settings_scheme \<Rightarrow> environment \<Rightarrow>
     (string \<Rightarrow> filesystem \<Rightarrow> filesystem \<times> (error + unit)) \<Rightarrow> filesystem \<Rightarrow> string \<Rightarrow>
     filesystem \<times> (error + unit)" where
  "download_peft_adapter_if_needed self env download_and_convert_peft_model fs hf_peft_model_id =
     (case need_cache_refresh self env fs hf_peft_model_id WEIGHTS of
        (fs1, Inl e) \<Rightarrow> (fs1, Inl e)
      | (fs1, Inr need_refresh) \<Rightarrow>
          if need_refresh then download_and_convert_peft_model hf_peft_model_id fs1
          else (fs1, Inr ()))"

text \<open>
  A world for the worked instances: the hub knows the base model \<^verbatim>\<open>acme/base\<close> and the
  adapter \<^verbatim>\<open>acme/lora-a\<close> at different commits, the working directory is \<^verbatim>\<open>/work\<close>, the
  clock prints a new time at every write, and the digest is a stand-in that returns its
  input, so that different texts have different digests.
\<close>

definition demo_env :: environment where
  "demo_env =
     \<lparr>expanduser = (\<lambda>p. p),
      cwd = ''/work'',
      time_text = (\<lambda>n. ''1800000000.'' @ replicate (Suc n) (CHR ''5'')),
      model_info_sha = (\<lambda>n. if n = ''acme/base'' then Inr ''aaaa1111''
                              else if n = ''acme/lora-a'' then Inr ''bbbb2222''
                              else Inl (SourceUnreachable n)),
      md5_hexdigest = (\<lambda>text. text),
      snapshot_download = (\<lambda>n. Inr (''/hub/'' @ n)),
      snapshot_file = (\<lambda>p f. if f = ''tokenizer.json'' then Some ''{}'' else None)\<rparr>"

definition demo_settings :: llm_settings where
  "demo_settings =
     \<lparr>model_name = ''acme/base'', data_type = DT_HALF, cache_path = ''/cache'',
      refresh_cache = False\<rparr>"

text \<open>Tools whose model download is interrupted.\<close>

definition demo_failing_tools :: "unit weight_tools" where
  "demo_failing_tools =
     \<lparr>auto_model_from_pretrained = (\<lambda>n fs. Inl (SourceUnreachable n)),
      model_class_convert_hf_model = (\<lambda>m p fs. (fs, Inr ()))\<rparr>"

text \<open>An empty disk.\<close>

definition demo_empty_disk :: filesystem where
  "demo_empty_disk = \<lparr>root = Dir ''1700000000.0'' [], ticks = 0\<rparr>"

text \<open>A cache that holds the adapter's weights folder, marked with the base model's commit.\<close>

definition demo_adapter_cache :: filesystem where
  "demo_adapter_cache =
     \<lparr>root = Dir ''1700000000.0''
        [(''cache'', Dir ''1700000000.0''
           [(''weights'', Dir ''1700000000.0''
              [(''acme'', Dir ''1700000000.0''
                 [(''lora-a'', Dir ''1700000000.0''
                    [(''half-precision'', Dir ''1700000000.0''
                       [(''rev_sha.txt'', File ''1700000000.0'' ''aaaa1111''),
                        (''lora_A.weight'', File ''1700000000.0'' ''old'')])])])])])],
      ticks = 0\<rparr>"

text \<open>
  A local model: the directory \<^verbatim>\<open>/models/tiny\<close> with two files, a session opened on
  that path, and a stand-in digest that returns its input without the blanks, a single
  token.
\<close>

definition demo_local_disk :: filesystem where
  "demo_local_disk =
     \<lparr>root = Dir ''1700000000.0''
        [(''models'', Dir ''1700000000.0''
           [(''tiny'', Dir ''1700000002.0''
              [(''b.bin'', File ''1700000001.5'' ''weights''),
               (''a.json'', File ''1700000000.0'' ''config'')])])],
      ticks = 0\<rparr>"

definition demo_local_settings :: llm_settings where
  "demo_local_settings =
     \<lparr>model_name = ''/models/tiny'', data_type = DT_HALF, cache_path = ''/cache'',
      refresh_cache = False\<rparr>"

definition demo_local_env :: environment where
  "demo_local_env = demo_env\<lparr>md5_hexdigest := strip_whitespace\<rparr>"

text \<open>The local model's disk as one refresh of its weights folder leaves it.\<close>

definition demo_local_disk_refreshed :: filesystem where
  "demo_local_disk_refreshed =
     \<lparr>root = Dir ''1700000000.0''
        [(''models'', Dir ''1700000000.0''
           [(''tiny'', Dir ''1800000000.5''
              [(''b.bin'', File ''1700000001.5'' ''weights''),
               (''a.json'', File ''1700000000.0'' ''config''),
               (''half-precision'', Dir ''1800000000.55''
                  [(''rev_sha.txt'',
                    File ''1800000000.55'' ''['b.bin','a.json',1700000001.5,1700000000.0]'')])])])],
      ticks = 2\<rparr>"

text \<open>The empty disk after one refresh of the base model's weights folder.\<close>

definition demo_base_cache :: filesystem where
  "demo_base_cache =
     \<lparr>root = Dir ''1800000000.5''
        [(''cache'', Dir ''1800000000.5''
           [(''weights'', Dir ''1800000000.5''
              [(''acme'', Dir ''1800000000.5''
                 [(''base'', Dir ''1800000000.5''
                    [(''half-precision'', Dir ''1800000000.55''
                       [(''rev_sha.txt'', File ''1800000000.55'' ''aaaa1111'')])])])])])],
      ticks = 2\<rparr>"

section \<open>Properties of request normalisation\<close>

lemma set_max_length_sel [simp]:
  "max_length (set_max_length v r) = v"
  "max_new_tokens (set_max_length v r) = max_new_tokens r"
  "prompt (set_max_length v r) = prompt r"
  "req_type (set_max_length v r) = req_type r"
  "add_special_tokens (set_max_length v r) = add_special_tokens r"
  by (cases r; simp)+

lemma check_request_both_set:
  assumes "req_type r = REQ_INFERENCE" "max_length r \<noteq> -1" "max_new_tokens r \<noteq> -1"
  shows "check_request msl (PRequest r) =
           ([BothBoundsSet (max_new_tokens r) (max_length r)],
            if msl \<le> -1 \<or> msl \<le> max_new_tokens r
            then Inl (BoundsExceeded (-1) (max_new_tokens r) msl)
            else Inr (set_max_length (-1) r))"
  using assms by (cases r) (simp add: check_request_def resolve_bounds_def)

lemma check_requests_length:
  "check_requests msl vs = (ws, Inr rs) \<Longrightarrow> length rs = length vs"
  by (induction vs arbitrary: ws rs) (auto split: prod.splits sum.splits)

lemma check_requests_nth:
  "check_requests msl vs = (ws, Inr rs) \<Longrightarrow> i < length vs \<Longrightarrow>
     \<exists>w. check_request msl (vs ! i) = (w, Inr (rs ! i)) \<and> set w \<subseteq> set ws"
proof (induction vs arbitrary: ws rs i)
  case Nil
  then show ?case by simp
next
  case (Cons v vs)
  show ?case
  proof (cases i)
    case 0
    with Cons.prems show ?thesis
      by (auto split: prod.splits sum.splits)
  next
    case (Suc j)
    from Cons.prems obtain w1 r1 w2 rs2 where
      h: "check_request msl v = (w1, Inr r1)" "check_requests msl vs = (w2, Inr rs2)"
         "ws = w1 @ w2" "rs = r1 # rs2"
      by (auto split: prod.splits sum.splits)
    from Cons.prems Suc have "j < length vs" by simp
    from Cons.IH [OF h(2) this] obtain w where
      "check_request msl (vs ! j) = (w, Inr (rs2 ! j))" "set w \<subseteq> set w2" by blast
    with h Suc show ?thesis by auto
  qed
qed

lemma check_requests_all_ok:
  "(\<forall>v\<in>set vs. \<exists>w q. check_request msl v = (w, Inr q)) \<Longrightarrow>
     \<exists>ws rs. check_requests msl vs = (ws, Inr rs)"
  by (induction vs) (auto split: prod.splits sum.splits)

text \<open>
  C5. An inference request that reaches \<^verbatim>\<open>_generate\<close> with both \<^verbatim>\<open>max_length\<close> and
  \<^verbatim>\<open>max_new_tokens\<close> set is resolved by a branch that only warns and assigns: it keeps
  \<^verbatim>\<open>max_new_tokens\<close> and sets \<^verbatim>\<open>max_length\<close> to \<open>-1\<close>. Whenever the batch is handed to the
  engine, the request at that position is the resolved one and the warning is among the
  warnings issued; and the call does reach the engine as soon as every request passes
  the bounds check that follows (for this request: \<^verbatim>\<open>max_new_tokens\<close> below the sequence
  length). The warning comes from \<^verbatim>\<open>warnings.warn\<close>; like \<^verbatim>\<open>os\<close>, the module
  \<^verbatim>\<open>warnings\<close> is not imported by name in \<^verbatim>\<open>serve.py\<close> and is taken to come with
  \<^verbatim>\<open>from flexflow.core import *\<close>.
\<close>

theorem priv_generate_both_bounds_set:
  assumes i: "i < length reqs" and ri: "reqs ! i = PRequest r"
    and inf: "req_type r = REQ_INFERENCE"
    and ml: "max_length r \<noteq> -1" and mnt: "max_new_tokens r \<noteq> -1"
  shows "resolve_bounds (max_seq_length st) r =
           ([BothBoundsSet (max_new_tokens r) (max_length r)], set_max_length (-1) r)
       \<and> (\<forall>st' res. priv_generate c st reqs = (st', res) \<and> engine_calls st' \<noteq> engine_calls st \<longrightarrow>
            (\<exists>sent. engine_calls st' = engine_calls st @ [sent] \<and> length sent = length reqs
               \<and> res = ffmodel_generate c sent
               \<and> max_new_tokens (sent ! i) = max_new_tokens r \<and> max_length (sent ! i) = -1
               \<and> BothBoundsSet (max_new_tokens r) (max_length r) \<in> set (warnings st')))
       \<and> ((\<forall>j<length reqs. j \<noteq> i \<longrightarrow>
              (\<exists>w q. check_request (max_seq_length st) (reqs ! j) = (w, Inr q)))
            \<and> -1 < max_seq_length st \<and> max_new_tokens r < max_seq_length st \<longrightarrow>
            (\<exists>st' sent. priv_generate c st reqs = (st', ffmodel_generate c sent)
               \<and> engine_calls st' = engine_calls st @ [sent]))"
proof (intro conjI allI impI)
  show "resolve_bounds (max_seq_length st) r =
          ([BothBoundsSet (max_new_tokens r) (max_length r)], set_max_length (-1) r)"
    using ml mnt by (simp add: resolve_bounds_def)
next
  fix st' res
  assume h: "priv_generate c st reqs = (st', res) \<and> engine_calls st' \<noteq> engine_calls st"
  from i have ne: "length reqs \<noteq> 0" by auto
  obtain ws cr where cr: "check_requests (max_seq_length st) reqs = (ws, cr)"
    by (cases "check_requests (max_seq_length st) reqs")
  from h ne cr obtain sent where sent: "cr = Inr sent"
    by (cases cr) (auto simp: priv_generate_def)
  from h ne cr sent have st': "st' = st\<lparr>warnings := warnings st @ ws,
      engine_calls := engine_calls st @ [sent]\<rparr>" and res: "res = ffmodel_generate c sent"
    by (auto simp: priv_generate_def)
  from check_requests_nth [OF cr [unfolded sent] i] obtain w where
    w: "check_request (max_seq_length st) (reqs ! i) = (w, Inr (sent ! i))" "set w \<subseteq> set ws"
    by blast
  from w(1) have "w = [BothBoundsSet (max_new_tokens r) (max_length r)]"
    and "sent ! i = set_max_length (-1) r"
    unfolding ri check_request_both_set [OF inf ml mnt]
    by (auto split: if_splits)
  with w(2) st' res check_requests_length [OF cr [unfolded sent]]
  show "\<exists>sent. engine_calls st' = engine_calls st @ [sent] \<and> length sent = length reqs
               \<and> res = ffmodel_generate c sent
               \<and> max_new_tokens (sent ! i) = max_new_tokens r \<and> max_length (sent ! i) = -1
               \<and> BothBoundsSet (max_new_tokens r) (max_length r) \<in> set (warnings st')"
    by auto
next
  assume h: "(\<forall>j<length reqs. j \<noteq> i \<longrightarrow>
              (\<exists>w q. check_request (max_seq_length st) (reqs ! j) = (w, Inr q)))
            \<and> -1 < max_seq_length st \<and> max_new_tokens r < max_seq_length st"
  have "\<forall>v\<in>set reqs. \<exists>w q. check_request (max_seq_length st) v = (w, Inr q)"
  proof
    fix v assume "v \<in> set reqs"
    then obtain j where j: "j < length reqs" "reqs ! j = v"
      by (auto simp: in_set_conv_nth)
    show "\<exists>w q. check_request (max_seq_length st) v = (w, Inr q)"
    proof (cases "j = i")
      case True
      with j ri have "v = PRequest r" by simp
      with h show ?thesis
        by (simp add: check_request_both_set [OF inf ml mnt])
    next
      case False
      with h j show ?thesis by blast
    qed
  qed
  from check_requests_all_ok [OF this] obtain ws rs where
    "check_requests (max_seq_length st) reqs = (ws, Inr rs)" by blast
  moreover from i have "length reqs \<noteq> 0" by auto
  ultimately show "\<exists>st' sent. priv_generate c st reqs = (st', ffmodel_generate c sent)
               \<and> engine_calls st' = engine_calls st @ [sent]"
    by (auto simp: priv_generate_def)
qed

text \<open>
  The instance: one inference request with \<^verbatim>\<open>max_length=100\<close> and
  \<^verbatim>\<open>max_new_tokens=20\<close> is dispatched with \<^verbatim>\<open>max_length=-1\<close>, one warning is issued and
  the engine's answer comes back.
\<close>

theorem priv_generate_both_bounds_set_witness:
  "resolve_bounds 256 (Request REQ_INFERENCE (PStr ''hi'') 100 20 True) =
     ([BothBoundsSet 20 100], Request REQ_INFERENCE (PStr ''hi'') (-1) 20 True)
   \<and> priv_generate demo_collaborators demo_llm
       [PRequest (Request REQ_INFERENCE (PStr ''hi'') 100 20 True)] =
     (demo_llm\<lparr>warnings := [BothBoundsSet 20 100],
        engine_calls := [[Request REQ_INFERENCE (PStr ''hi'') (-1) 20 True]]\<rparr>,
      Inr [\<lparr>output_text = ''hiok''\<rparr>])"
  using priv_generate_both_bounds_set [of 0
      "[PRequest (Request REQ_INFERENCE (PStr ''hi'') 100 20 True)]"
      "Request REQ_INFERENCE (PStr ''hi'') 100 20 True" demo_llm demo_collaborators]
  by (simp add: priv_generate_def check_request_def resolve_bounds_def demo_llm_def
        demo_collaborators_def demo_engine_def)

text \<open>
  C6. \<^verbatim>\<open>generate(["hello", "world"])\<close> on a session compiled with
  \<^verbatim>\<open>max_seq_length=256\<close> and both bounds left at \<open>-1\<close> hands the engine exactly two
  inference requests, in input order, each with \<^verbatim>\<open>max_length\<close> resolved to 255,
  and returns what the engine answers.
\<close>

theorem generate_hello_world:
  "generate c (st\<lparr>max_seq_length := 256\<rparr>) (PList [PStr ''hello'', PStr ''world'']) (-1) (-1) =
     (st\<lparr>max_seq_length := 256,
          engine_calls := engine_calls st @
            [[Request REQ_INFERENCE (PStr ''hello'') 255 (-1) True,
              Request REQ_INFERENCE (PStr ''world'') 255 (-1) True]]\<rparr>,
      map_sum id Some (ffmodel_generate c
            [Request REQ_INFERENCE (PStr ''hello'') 255 (-1) True,
             Request REQ_INFERENCE (PStr ''world'') 255 (-1) True]))"
  by (simp add: generate_def returning_def priv_generate_def check_request_def resolve_bounds_def)

theorem generate_hello_world_witness:
  "generate demo_collaborators demo_llm (PList [PStr ''hello'', PStr ''world'']) (-1) (-1) =
     (demo_llm\<lparr>engine_calls :=
            [[Request REQ_INFERENCE (PStr ''hello'') 255 (-1) True,
              Request REQ_INFERENCE (PStr ''world'') 255 (-1) True]]\<rparr>,
      Inr (Some [\<lparr>output_text = ''hellook''\<rparr>, \<lparr>output_text = ''worldok''\<rparr>]))"
  using generate_hello_world [of demo_collaborators demo_llm]
  by (simp add: demo_llm_def demo_collaborators_def demo_engine_def)

text \<open>
  C10. A non-empty list whose first element is neither a \<^verbatim>\<open>str\<close>, a \<^verbatim>\<open>dict\<close>, a
  \<^verbatim>\<open>list\<close> nor a \<^verbatim>\<open>Request\<close> falls through every branch of \<^verbatim>\<open>generate\<close>: the call
  returns \<^verbatim>\<open>None\<close>, raises nothing and leaves the session as it was, so the engine is
  not called. Only the first element is looked at; the rest of the list is arbitrary.
\<close>

theorem generate_unrecognised_first_element:
  assumes "\<forall>s. x \<noteq> PStr s" and "\<forall>d. x \<noteq> PDict d" and "\<forall>l. x \<noteq> PList l"
    and "\<forall>r. x \<noteq> PRequest r"
  shows "generate c st (PList (x # rest)) ml mnt = (st, Inr None)"
  using assms by (cases x) (simp_all add: generate_def)

theorem generate_unrecognised_first_element_witness:
  "generate demo_collaborators demo_llm (PList [PInt 1, PInt 2, PInt 3]) (-1) (-1) =
     (demo_llm, Inr None)
   \<and> engine_calls (fst (generate demo_collaborators demo_llm
        (PList [PInt 1, PStr ''a'', PRequest (Request REQ_INFERENCE (PStr ''b'') 5 (-1) True)])
        (-1) (-1))) = []"
  using generate_unrecognised_first_element [of "PInt 1" demo_collaborators demo_llm
      "[PInt 2, PInt 3]" "-1" "-1"]
    generate_unrecognised_first_element [of "PInt 1" demo_collaborators demo_llm
      "[PStr ''a'', PRequest (Request REQ_INFERENCE (PStr ''b'') 5 (-1) True)]" "-1" "-1"]
  by (simp add: demo_llm_def)

lemma check_request_prompt:
  "check_request msl (PRequest r) = (w, Inr r') \<Longrightarrow> prompt r' = prompt r"
  by (auto simp: check_request_def resolve_bounds_def Let_def split: if_splits)

lemma check_requests_prompts:
  "check_requests msl (map PRequest rs) = (ws, Inr sent) \<Longrightarrow> map prompt sent = map prompt rs"
proof (induction rs arbitrary: ws sent)
  case Nil
  then show ?case by simp
next
  case (Cons r rs)
  then show ?case
    by (auto split: prod.splits sum.splits dest: check_request_prompt)
qed

lemma strip_prompts_text:
  "map prompt sent = map PStr ps \<Longrightarrow> length outs = length ps \<Longrightarrow>
     strip_prompts sent outs =
       Inr (map2 (\<lambda>p out. out\<lparr>output_text := drop (length p) (output_text out)\<rparr>) ps outs)"
proof (induction sent outs arbitrary: ps rule: strip_prompts.induct)
  case (1 rs)
  then show ?case by simp
next
  case (2 out outs)
  then show ?case by simp
next
  case (3 r rs out outs)
  then show ?case by (cases ps) auto
qed

lemma chat_reply_result:
  assumes "chat_reply c st (map (\<lambda>p. Request REQ_INFERENCE (PStr p) ml mnt False) ps) =
             (st', Inr (Some results))"
    and "ps \<noteq> []"
  shows "\<exists>sent outs. engine_calls st' = engine_calls st @ [sent]
           \<and> map prompt sent = map PStr ps
           \<and> ffmodel_generate c sent = Inr outs \<and> length outs = length ps
           \<and> results = map2 (\<lambda>p out. out\<lparr>output_text := drop (length p) (output_text out)\<rparr>) ps outs"
proof -
  let ?rs = "map (\<lambda>p. Request REQ_INFERENCE (PStr p) ml mnt False) ps"
  obtain ws cr where cr: "check_requests (max_seq_length st) (map PRequest ?rs) = (ws, cr)"
    by (cases "check_requests (max_seq_length st) (map PRequest ?rs)")
  from assms cr obtain sent where sent: "cr = Inr sent"
    by (cases cr) (auto simp: chat_reply_def priv_generate_def)
  from assms cr sent obtain outs where outs: "ffmodel_generate c sent = Inr outs"
    and st': "st' = st\<lparr>warnings := warnings st @ ws, engine_calls := engine_calls st @ [sent]\<rparr>"
    and o2c: "output2chat_response ?rs outs = Inr results"
    by (cases "ffmodel_generate c sent";
        cases "output2chat_response ?rs (projr (ffmodel_generate c sent))")
       (auto simp: chat_reply_def priv_generate_def split: sum.splits)
  from o2c have len: "length outs = length ps" and sp: "strip_prompts ?rs outs = Inr results"
    by (auto simp: output2chat_response_def split: if_splits)
  have pr: "map prompt sent = map PStr ps"
    using check_requests_prompts [OF cr [unfolded sent]] by (simp add: comp_def)
  have "map prompt ?rs = map PStr ps" by (simp add: comp_def)
  from strip_prompts_text [OF this len] sp
  have "results = map2 (\<lambda>p out. out\<lparr>output_text := drop (length p) (output_text out)\<rparr>) ps outs"
    by simp
  with st' pr outs len show ?thesis by auto
qed

lemma chat2prompts_render:
  "chat_template c = Some render \<Longrightarrow> chat2prompts c ms = Inr ps \<Longrightarrow> ps = map render ms"
  by (induction ms arbitrary: ps)
     (auto simp: chat2prompt_def split: sum.splits if_splits)

lemma chat2prompt_ok:
  "chat_template c = Some render \<Longrightarrow> py_iter m = Inr ms \<Longrightarrow> list_all is_chat_message ms \<Longrightarrow>
     chat2prompt c m = Inr (render m)"
  by (simp add: chat2prompt_def)

lemma chat2prompts_ok:
  "chat_template c = Some render \<Longrightarrow>
   list_all (\<lambda>m. \<exists>ms. py_iter m = Inr ms \<and> list_all is_chat_message ms) ms \<Longrightarrow>
     chat2prompts c ms = Inr (map render ms)"
  by (induction ms) (auto simp: chat2prompt_ok)

lemma check_requests_chat:
  assumes "ml' = (if ml = -1 \<and> mnt = -1 then msl - 1 else if ml \<noteq> -1 \<and> mnt \<noteq> -1 then -1 else ml)"
    and "ml' < msl" and "mnt < msl"
  shows "check_requests msl (map (\<lambda>p. PRequest (Request REQ_INFERENCE (PStr p) ml mnt False)) ps) =
           (concat (map (\<lambda>p. if ml \<noteq> -1 \<and> mnt \<noteq> -1 then [BothBoundsSet mnt ml] else []) ps),
            Inr (map (\<lambda>p. Request REQ_INFERENCE (PStr p) ml' mnt False) ps))"
  using assms by (induction ps) (auto simp: check_request_def resolve_bounds_def)

lemma chat_reply_forward:
  assumes ml': "ml' = (if ml = -1 \<and> mnt = -1 then max_seq_length st - 1
                       else if ml \<noteq> -1 \<and> mnt \<noteq> -1 then -1 else ml)"
    and ok: "ml' < max_seq_length st" "mnt < max_seq_length st"
    and sent: "sent = map (\<lambda>p. Request REQ_INFERENCE (PStr p) ml' mnt False) ps"
    and ws: "ws = concat (map (\<lambda>p. if ml \<noteq> -1 \<and> mnt \<noteq> -1 then [BothBoundsSet mnt ml] else []) ps)"
    and eng: "ffmodel_generate c sent = Inr outs" and len: "length outs = length ps"
    and ne: "ps \<noteq> []"
  shows "chat_reply c st (map (\<lambda>p. Request REQ_INFERENCE (PStr p) ml mnt False) ps) =
           (st\<lparr>warnings := warnings st @ ws, engine_calls := engine_calls st @ [sent]\<rparr>,
            Inr (Some (map2 (\<lambda>p out. out\<lparr>output_text := drop (length p) (output_text out)\<rparr>) ps outs)))"
proof -
  let ?rs = "map (\<lambda>p. Request REQ_INFERENCE (PStr p) ml mnt False) ps"
  have cr: "check_requests (max_seq_length st) (map PRequest ?rs) = (ws, Inr sent)"
    using check_requests_chat [OF ml' ok, of ps] by (simp add: sent ws comp_def)
  have pg: "priv_generate c st (map PRequest ?rs) =
      (st\<lparr>warnings := warnings st @ ws, engine_calls := engine_calls st @ [sent]\<rparr>, Inr outs)"
    using ne cr eng by (simp add: priv_generate_def)
  have "map prompt ?rs = map PStr ps" by (simp add: comp_def)
  from strip_prompts_text [OF this len] len
  have "output2chat_response ?rs outs =
      Inr (map2 (\<lambda>p out. out\<lparr>output_text := drop (length p) (output_text out)\<rparr>) ps outs)"
    by (simp add: output2chat_response_def)
  with pg show ?thesis by (simp add: chat_reply_def)
qed

text \<open>
  C7. For a chat-shaped call (a list whose first element is a message dictionary, or a
  list of message lists) that returns results, the engine was handed one request per
  rendered prompt, each carrying the text the chat template rendered, and every returned
  \<^verbatim>\<open>output_text\<close> is the engine's output for that request with its first \<open>len(p)\<close>
  characters dropped, \<open>p\<close> being that rendered prompt. For the single message
  \<^verbatim>\<open>[{"role": "user", "content": "hi"}]\<close> exactly one request is dispatched, and its
  prompt is the rendered template output. And such calls do return results: when every
  message is a dictionary with the keys \<^verbatim>\<open>role\<close> and \<^verbatim>\<open>content\<close>, the resolved bounds
  are below the sequence length and the engine answers with one output per request, the
  call of either shape hands the engine exactly these requests and returns the stripped
  outputs.
\<close>

theorem generate_chat_strips_rendered_prompt:
  assumes tmpl: "chat_template c = Some render"
    and shape: "(\<exists>d. x = PDict d) \<or> (\<exists>l. x = PList l)"
  shows "(\<forall>st' results. generate c st (PList (x # rest)) ml mnt = (st', Inr (Some results)) \<longrightarrow>
            (\<exists>sent outs ps.
                ps = (case x of PDict d \<Rightarrow> [render (PList (x # rest))] | _ \<Rightarrow> map render (x # rest))
              \<and> engine_calls st' = engine_calls st @ [sent]
              \<and> map prompt sent = map PStr ps
              \<and> ffmodel_generate c sent = Inr outs \<and> length outs = length ps
              \<and> results = map2 (\<lambda>p out. out\<lparr>output_text := drop (length p) (output_text out)\<rparr>) ps outs))
       \<and> (-1 < max_seq_length st \<longrightarrow>
            fst (generate c st (PList [PDict [(''role'', PStr ''user''), (''content'', PStr ''hi'')]]) (-1) (-1)) =
              st\<lparr>engine_calls := engine_calls st @
                 [[Request REQ_INFERENCE
                     (PStr (render (PList [PDict [(''role'', PStr ''user''), (''content'', PStr ''hi'')]])))
                     (max_seq_length st - 1) (-1) False]]\<rparr>)
       \<and> (\<forall>outs ps ml' sent ws.
              ps = (case x of PDict d \<Rightarrow> [render (PList (x # rest))] | _ \<Rightarrow> map render (x # rest))
            \<and> ml' = (if ml = -1 \<and> mnt = -1 then max_seq_length st - 1
                      else if ml \<noteq> -1 \<and> mnt \<noteq> -1 then -1 else ml)
            \<and> sent = map (\<lambda>p. Request REQ_INFERENCE (PStr p) ml' mnt False) ps
            \<and> ws = concat (map (\<lambda>p. if ml \<noteq> -1 \<and> mnt \<noteq> -1 then [BothBoundsSet mnt ml] else []) ps)
            \<and> (case x of
                  PDict d \<Rightarrow> list_all is_chat_message (x # rest)
                | _ \<Rightarrow> list_all (\<lambda>m. \<exists>ms. py_iter m = Inr ms \<and> list_all is_chat_message ms) (x # rest))
            \<and> ml' < max_seq_length st \<and> mnt < max_seq_length st
            \<and> ffmodel_generate c sent = Inr outs \<and> length outs = length ps \<longrightarrow>
            generate c st (PList (x # rest)) ml mnt =
              (st\<lparr>warnings := warnings st @ ws, engine_calls := engine_calls st @ [sent]\<rparr>,
               Inr (Some (map2 (\<lambda>p out. out\<lparr>output_text := drop (length p) (output_text out)\<rparr>)
                            ps outs))))"
proof (intro conjI allI impI)
  fix outs ps ml' sent ws
  assume h: "ps = (case x of PDict d \<Rightarrow> [render (PList (x # rest))] | _ \<Rightarrow> map render (x # rest))
            \<and> ml' = (if ml = -1 \<and> mnt = -1 then max_seq_length st - 1
                      else if ml \<noteq> -1 \<and> mnt \<noteq> -1 then -1 else ml)
            \<and> sent = map (\<lambda>p. Request REQ_INFERENCE (PStr p) ml' mnt False) ps
            \<and> ws = concat (map (\<lambda>p. if ml \<noteq> -1 \<and> mnt \<noteq> -1 then [BothBoundsSet mnt ml] else []) ps)
            \<and> (case x of
                  PDict d \<Rightarrow> list_all is_chat_message (x # rest)
                | _ \<Rightarrow> list_all (\<lambda>m. \<exists>ms. py_iter m = Inr ms \<and> list_all is_chat_message ms) (x # rest))
            \<and> ml' < max_seq_length st \<and> mnt < max_seq_length st
            \<and> ffmodel_generate c sent = Inr outs \<and> length outs = length ps"
  then have ml': "ml' = (if ml = -1 \<and> mnt = -1 then max_seq_length st - 1
                      else if ml \<noteq> -1 \<and> mnt \<noteq> -1 then -1 else ml)"
    and ok: "ml' < max_seq_length st" "mnt < max_seq_length st"
    and sent: "sent = map (\<lambda>p. Request REQ_INFERENCE (PStr p) ml' mnt False) ps"
    and ws: "ws = concat (map (\<lambda>p. if ml \<noteq> -1 \<and> mnt \<noteq> -1 then [BothBoundsSet mnt ml] else []) ps)"
    and eng: "ffmodel_generate c sent = Inr outs" and len: "length outs = length ps"
    by blast+
  from shape show "generate c st (PList (x # rest)) ml mnt =
              (st\<lparr>warnings := warnings st @ ws, engine_calls := engine_calls st @ [sent]\<rparr>,
               Inr (Some (map2 (\<lambda>p out. out\<lparr>output_text := drop (length p) (output_text out)\<rparr>)
                            ps outs)))"
  proof
    assume "\<exists>d. x = PDict d"
    then obtain d where x: "x = PDict d" ..
    with h have ps: "ps = [render (PList (x # rest))]"
      and valid: "list_all is_chat_message (x # rest)" by simp_all
    have "chat2prompt c (PList (x # rest)) = Inr (render (PList (x # rest)))"
      by (rule chat2prompt_ok [OF tmpl _ valid]) simp
    moreover have "ps \<noteq> []" using ps by simp
    note chat_reply_forward [OF ml' ok sent ws eng len this]
    ultimately show ?thesis using x ps by (simp add: generate_def)
  next
    assume "\<exists>l. x = PList l"
    then obtain l where x: "x = PList l" ..
    with h have ps: "ps = map render (x # rest)"
      and valid: "list_all (\<lambda>m. \<exists>ms. py_iter m = Inr ms \<and> list_all is_chat_message ms) (x # rest)"
      by simp_all
    have "chat2prompts c (x # rest) = Inr ps"
      unfolding ps by (rule chat2prompts_ok [OF tmpl valid])
    moreover have "ps \<noteq> []" using ps by simp
    note chat_reply_forward [OF ml' ok sent ws eng len this]
    ultimately show ?thesis using x by (simp add: generate_def)
  qed
next
  fix st' results
  assume g: "generate c st (PList (x # rest)) ml mnt = (st', Inr (Some results))"
  from shape show "\<exists>sent outs ps.
                ps = (case x of PDict d \<Rightarrow> [render (PList (x # rest))] | _ \<Rightarrow> map render (x # rest))
              \<and> engine_calls st' = engine_calls st @ [sent]
              \<and> map prompt sent = map PStr ps
              \<and> ffmodel_generate c sent = Inr outs \<and> length outs = length ps
              \<and> results = map2 (\<lambda>p out. out\<lparr>output_text := drop (length p) (output_text out)\<rparr>) ps outs"
  proof
    assume "\<exists>d. x = PDict d"
    then obtain d where x: "x = PDict d" ..
    from g x obtain p where p: "chat2prompt c (PList (x # rest)) = Inr p"
      and cr: "chat_reply c st (map (\<lambda>p. Request REQ_INFERENCE (PStr p) ml mnt False) [p]) =
                 (st', Inr (Some results))"
      by (auto simp: generate_def split: sum.splits)
    from p tmpl have "p = render (PList (x # rest))"
      by (auto simp: chat2prompt_def split: if_splits)
    with chat_reply_result [OF cr] x show ?thesis by simp
  next
    assume "\<exists>l. x = PList l"
    then obtain l where x: "x = PList l" ..
    from g x obtain ps where ps: "chat2prompts c (x # rest) = Inr ps"
      and cr: "chat_reply c st (map (\<lambda>p. Request REQ_INFERENCE (PStr p) ml mnt False) ps) =
                 (st', Inr (Some results))"
      by (auto simp: generate_def split: sum.splits)
    from chat2prompts_render [OF tmpl ps] have eq: "ps = map render (x # rest)" .
    then have "ps \<noteq> []" by simp
    from chat_reply_result [OF cr this] eq x show ?thesis by simp
  qed
next
  assume "-1 < max_seq_length st"
  then show "fst (generate c st (PList [PDict [(''role'', PStr ''user''), (''content'', PStr ''hi'')]]) (-1) (-1)) =
              st\<lparr>engine_calls := engine_calls st @
                 [[Request REQ_INFERENCE
                     (PStr (render (PList [PDict [(''role'', PStr ''user''), (''content'', PStr ''hi'')]])))
                     (max_seq_length st - 1) (-1) False]]\<rparr>"
    using tmpl
    by (simp add: generate_def chat2prompt_def chat_reply_def priv_generate_def
          check_request_def resolve_bounds_def split: sum.splits prod.splits)
qed

theorem generate_chat_strips_rendered_prompt_witness:
  "generate demo_chat demo_llm
       (PList [PDict [(''role'', PStr ''user''), (''content'', PStr ''hi'')]]) (-1) (-1) =
     (demo_llm\<lparr>engine_calls := [[Request REQ_INFERENCE (PStr ''<hi>'') 255 (-1) False]]\<rparr>,
      Inr (Some [\<lparr>output_text = ''ok''\<rparr>]))
   \<and> demo_engine [Request REQ_INFERENCE (PStr ''<hi>'') 255 (-1) False] =
       Inr [\<lparr>output_text = ''<hi>ok''\<rparr>]
   \<and> generate demo_chat demo_llm
       (PList [PList [PDict [(''role'', PStr ''user''), (''content'', PStr ''hi'')]],
               PList [PDict [(''role'', PStr ''system''), (''content'', PStr ''be brief'')],
                      PDict [(''role'', PStr ''user''), (''content'', PStr ''yo'')]]]) (-1) (-1) =
     (demo_llm\<lparr>engine_calls := [[Request REQ_INFERENCE (PStr ''<hi>'') 255 (-1) False,
                                   Request REQ_INFERENCE (PStr ''<be brief><yo>'') 255 (-1) False]]\<rparr>,
      Inr (Some [\<lparr>output_text = ''ok''\<rparr>, \<lparr>output_text = ''ok''\<rparr>]))"
proof -
  have t: "chat_template demo_chat = Some demo_template" by (simp add: demo_chat_def)
  have e1: "ffmodel_generate demo_chat [Request REQ_INFERENCE (PStr ''<hi>'') 255 (-1) False] =
      Inr [\<lparr>output_text = ''<hi>ok''\<rparr>]"
    by (simp add: demo_chat_def demo_engine_def)
  have e2: "ffmodel_generate demo_chat [Request REQ_INFERENCE (PStr ''<hi>'') 255 (-1) False,
              Request REQ_INFERENCE (PStr ''<be brief><yo>'') 255 (-1) False] =
      Inr [\<lparr>output_text = ''<hi>ok''\<rparr>, \<lparr>output_text = ''<be brief><yo>ok''\<rparr>]"
    by (simp add: demo_chat_def demo_engine_def)
  have one: "generate demo_chat demo_llm
       (PList [PDict [(''role'', PStr ''user''), (''content'', PStr ''hi'')]]) (-1) (-1) =
     (demo_llm\<lparr>engine_calls := [[Request REQ_INFERENCE (PStr ''<hi>'') 255 (-1) False]]\<rparr>,
      Inr (Some [\<lparr>output_text = ''ok''\<rparr>]))"
    using generate_chat_strips_rendered_prompt [OF t, of
        "PDict [(''role'', PStr ''user''), (''content'', PStr ''hi'')]" demo_llm "[]" "-1" "-1"] e1
    by (simp add: demo_llm_def demo_template_def)
  have two: "generate demo_chat demo_llm
       (PList [PList [PDict [(''role'', PStr ''user''), (''content'', PStr ''hi'')]],
               PList [PDict [(''role'', PStr ''system''), (''content'', PStr ''be brief'')],
                      PDict [(''role'', PStr ''user''), (''content'', PStr ''yo'')]]]) (-1) (-1) =
     (demo_llm\<lparr>engine_calls := [[Request REQ_INFERENCE (PStr ''<hi>'') 255 (-1) False,
                                   Request REQ_INFERENCE (PStr ''<be brief><yo>'') 255 (-1) False]]\<rparr>,
      Inr (Some [\<lparr>output_text = ''ok''\<rparr>, \<lparr>output_text = ''ok''\<rparr>]))"
    using generate_chat_strips_rendered_prompt [OF t, of
        "PList [PDict [(''role'', PStr ''user''), (''content'', PStr ''hi'')]]" demo_llm
        "[PList [PDict [(''role'', PStr ''system''), (''content'', PStr ''be brief'')],
                 PDict [(''role'', PStr ''user''), (''content'', PStr ''yo'')]]]" "-1" "-1"] e2
    by (simp add: demo_llm_def demo_template_def)
  from one two e1 show ?thesis by (simp add: demo_chat_def)
qed

section \<open>Properties of adapter registration\<close>

text \<open>
  C8 as stated fails: an adapter whose fetched configuration names another base model
  and is not of type LORA is refused for its type, which is checked first, and not with
  the base-model-mismatch error.
\<close>

theorem register_peft_adapter_mismatch_counterexample:
  "from_pretrained demo_hub ''acme/ia3-b'' =
     Inr \<lparr>peft_type = ''IA3'', has_base_model_key = True,
          base_model_name_or_path = Some ''acme/other''\<rparr>
   \<and> Some ''acme/other'' \<noteq> Some (model_name demo_session)
   \<and> register_peft_adapter demo_hub demo_session (Some (demo_adapter ''acme/ia3-b'')) =
       (demo_session, Inl (PeftTypeUnsupported ''IA3''))"
  by (simp add: register_peft_adapter_def demo_hub_def demo_session_def demo_adapter_def)

text \<open>
  C8, amended. An adapter with a non-empty id whose configuration is fetched (it is not
  trainable, or does not ask for fresh weights) and declares a base model other than the
  session's is always refused and never partially registered: the session, and with it
  \<^verbatim>\<open>self.pefts\<close> and the engine calls, is unchanged. The error is the base-model mismatch
  when the fetched type is LORA and the unsupported-type error otherwise. On the other
  path, where the configuration is synthesised for an adapter with a non-empty id, every
  check passes and the adapter is compiled.
\<close>

theorem register_peft_adapter_mismatch:
  assumes "peft_model_id cfg = Some pid" and "pid \<noteq> []"
    and "\<not> trainable cfg \<or> \<not> init_lora_weights cfg"
    and "from_pretrained c pid = Inr pc"
    and "has_base_model_key pc"
    and "base_model_name_or_path pc \<noteq> Some (model_name st)"
  shows "register_peft_adapter c st (Some cfg) =
           (st, Inl (if peft_type pc = ''LORA''
                     then PeftBaseModelMismatch (base_model_name_or_path pc) (model_name st)
                     else PeftTypeUnsupported (peft_type pc)))
       \<and> (\<forall>cfg' pid'. trainable cfg' \<and> init_lora_weights cfg'
               \<and> peft_model_id cfg' = Some pid' \<and> pid' \<noteq> [] \<longrightarrow>
             take (Suc (length (peft_calls st)))
               (peft_calls (fst (register_peft_adapter c st (Some cfg')))) =
             peft_calls st @ [FFCompile cfg'])"
  using assms
  by (auto simp: register_peft_adapter_def synthesised_config_def Let_def split: sum.splits)

theorem register_peft_adapter_mismatch_witness:
  "register_peft_adapter demo_hub demo_session (Some (demo_adapter ''acme/lora-c'')) =
     (demo_session, Inl (PeftBaseModelMismatch (Some ''acme/other'') ''acme/base''))
   \<and> pefts (fst (register_peft_adapter demo_hub demo_session (Some (demo_adapter ''acme/lora-c''))))
       = Map.empty
   \<and> peft_calls (fst (register_peft_adapter demo_hub demo_session
        (Some (demo_adapter ''acme/lora-c'')))) = []"
  using register_peft_adapter_mismatch [of "demo_adapter ''acme/lora-c''" "''acme/lora-c''"
      demo_hub "\<lparr>peft_type = ''LORA'', has_base_model_key = True,
                 base_model_name_or_path = Some ''acme/other''\<rparr>" demo_session]
  by (simp add: demo_hub_def demo_session_def demo_adapter_def)

section \<open>Properties of the Falcon weight conversion\<close>

lemma py_replace_differs:
  assumes "old \<noteq> []" and "length a = length b" and "a \<noteq> b"
  shows "contains old s \<Longrightarrow> py_replace old a s \<noteq> py_replace old b s"
proof (induction s rule: length_induct)
  case (1 s)
  show ?case
  proof (cases s)
    case Nil
    with "1.prems" assms show ?thesis by simp
  next
    case (Cons ch s')
    show ?thesis
    proof (cases "take (length old) (ch # s') = old")
      case True
      with Cons assms show ?thesis by auto
    next
      case False
      with "1.prems" Cons have "contains old s'" by simp
      moreover have "length s' < length s" using Cons by simp
      ultimately have "py_replace old a s' \<noteq> py_replace old b s'"
        using "1.IH" by blast
      with False Cons assms show ?thesis by simp
    qed
  qed
qed

lemma torch_split_three:
  assumes "0 \<le> h" and "0 \<le> k" and "int (length t) = h + 2 * k"
  shows "torch_split t [h, k, k] =
           Inr [take (nat h) t, take (nat k) (drop (nat h) t), drop (nat h + nat k) t]"
  using assms by (simp add: torch_split_def add.commute)

lemma torch_split_mismatch:
  "int (length t) \<noteq> h + 2 * k \<Longrightarrow>
     torch_split t [h, k, k] = Inl (SplitSizeMismatch (length t) [h, k, k])"
  by (simp add: torch_split_def)

lemma concat_three_parts:
  "concat (take m t) @ concat (take n (drop m t)) @ concat (drop (m + n) t) = concat t"
proof -
  have "concat (take n (drop m t)) @ concat (drop (m + n) t) = concat (drop m t)"
    by (metis add.commute append_take_drop_id concat_append drop_drop)
  then show ?thesis
    by (metis append_take_drop_id concat_append)
qed

text \<open>
  C9 as stated fails: with \<^verbatim>\<open>hidden_size = 4\<close> and two heads, a fused projection of
  \<open>3 * 4 = 12\<close> rows is not split at all. The sizes asked of \<^verbatim>\<open>torch.split\<close> are 4, 2 and 2,
  they do not add up to 12, the call raises and no file is written.
\<close>

theorem convert_hf_model_three_h_counterexample:
  "length (snd (hd (named_parameters (demo_falcon 12)))) = 3 * nat (hidden_size (config (demo_falcon 12)))
   \<and> convert_hf_model (demo_falcon 12) [] = ([], Inl (SplitSizeMismatch 12 [4, 2, 2]))"
  by (simp add: convert_hf_model_def demo_falcon_def convert_parameter_def
        convert_hf_weight_name_def torch_split_def)

text \<open>
  C9, amended. For a parameter whose converted name contains
  \<^verbatim>\<open>self_attention.query_key_value\<close>, with \<open>H\<close> the hidden size and \<open>n\<close> the (non-zero)
  number of heads: when the tensor has \<open>H + 2 * (H div n)\<close> rows, the conversion writes
  three files under three different names, holding the first \<open>H\<close> rows (Q), the next
  \<open>H div n\<close> rows (K) and the last \<open>H div n\<close> rows (V), and the three written files
  concatenated in that order are the data of the original tensor, element for element.
  When the tensor has any other number of rows, \<^verbatim>\<open>torch.split\<close> raises and nothing is
  written.
\<close>

theorem convert_parameter_qkv_round_trip:
  assumes qkv: "contains ''self_attention.query_key_value'' (convert_hf_weight_name name)"
    and n: "n \<noteq> 0"
  shows "(0 \<le> hidden_size cfg \<and> 0 \<le> hidden_size cfg div n
            \<and> int (length t) = hidden_size cfg + 2 * (hidden_size cfg div n) \<longrightarrow>
          (\<exists>name_q name_k name_v q k v.
              convert_parameter cfg n fs (name, t) =
                (fs @ [(name_q, concat q), (name_k, concat k), (name_v, concat v)], Inr ())
            \<and> name_q \<noteq> name_k \<and> name_q \<noteq> name_v \<and> name_k \<noteq> name_v
            \<and> int (length q) = hidden_size cfg
            \<and> int (length k) = hidden_size cfg div n
            \<and> int (length v) = hidden_size cfg div n
            \<and> q @ k @ v = t
            \<and> concat q @ concat k @ concat v = concat t))
       \<and> (int (length t) \<noteq> hidden_size cfg + 2 * (hidden_size cfg div n) \<longrightarrow>
            convert_parameter cfg n fs (name, t) =
              (fs, Inl (SplitSizeMismatch (length t)
                     [hidden_size cfg, hidden_size cfg div n, hidden_size cfg div n])))"
proof (intro conjI impI)
  let ?H = "hidden_size cfg" and ?K = "hidden_size cfg div n"
  let ?nm = "convert_hf_weight_name name"
  let ?q = "take (nat ?H) t" and ?k = "take (nat ?K) (drop (nat ?H) t)"
  let ?v = "drop (nat ?H + nat ?K) t"
  assume h: "0 \<le> ?H \<and> 0 \<le> ?K \<and> int (length t) = ?H + 2 * ?K"
  then have sp: "torch_split t [?H, ?K, ?K] = Inr [?q, ?k, ?v]"
    by (simp add: torch_split_three)
  have run: "convert_parameter cfg n fs (name, t) =
      (fs @ [(py_replace ''self_attention.query_key_value'' ''self_attention.q_proj'' ?nm, concat ?q),
             (py_replace ''self_attention.query_key_value'' ''self_attention.k_proj'' ?nm, concat ?k),
             (py_replace ''self_attention.query_key_value'' ''self_attention.v_proj'' ?nm, concat ?v)],
       Inr ())"
    using qkv n sp by (simp add: convert_parameter_def Let_def)
  have d1: "py_replace ''self_attention.query_key_value'' ''self_attention.q_proj'' ?nm \<noteq>
            py_replace ''self_attention.query_key_value'' ''self_attention.k_proj'' ?nm"
    by (rule py_replace_differs [OF _ _ _ qkv]) simp_all
  have d2: "py_replace ''self_attention.query_key_value'' ''self_attention.q_proj'' ?nm \<noteq>
            py_replace ''self_attention.query_key_value'' ''self_attention.v_proj'' ?nm"
    by (rule py_replace_differs [OF _ _ _ qkv]) simp_all
  have d3: "py_replace ''self_attention.query_key_value'' ''self_attention.k_proj'' ?nm \<noteq>
            py_replace ''self_attention.query_key_value'' ''self_attention.v_proj'' ?nm"
    by (rule py_replace_differs [OF _ _ _ qkv]) simp_all
  from h have len: "length t = nat ?H + 2 * nat ?K" by linarith
  have lq: "int (length ?q) = ?H" using h len by simp
  have lk: "int (length ?k) = ?K" using h len by simp
  have lv: "int (length ?v) = ?K" using h len by simp
  have whole: "?q @ ?k @ ?v = t"
    by (metis add.commute append_take_drop_id drop_drop)
  have flat: "concat ?q @ concat ?k @ concat ?v = concat t"
    by (rule concat_three_parts)
  from run d1 d2 d3 lq lk lv whole flat
  show "\<exists>name_q name_k name_v q k v.
              convert_parameter cfg n fs (name, t) =
                (fs @ [(name_q, concat q), (name_k, concat k), (name_v, concat v)], Inr ())
            \<and> name_q \<noteq> name_k \<and> name_q \<noteq> name_v \<and> name_k \<noteq> name_v
            \<and> int (length q) = hidden_size cfg
            \<and> int (length k) = hidden_size cfg div n
            \<and> int (length v) = hidden_size cfg div n
            \<and> q @ k @ v = t
            \<and> concat q @ concat k @ concat v = concat t"
    by blast
next
  assume "int (length t) \<noteq> hidden_size cfg + 2 * (hidden_size cfg div n)"
  then show "convert_parameter cfg n fs (name, t) =
              (fs, Inl (SplitSizeMismatch (length t)
                     [hidden_size cfg, hidden_size cfg div n, hidden_size cfg div n]))"
    using qkv n by (simp add: convert_parameter_def Let_def torch_split_mismatch)
qed

text \<open>
  The instance: a projection of \<open>4 + 2 + 2\<close> rows is written as files of 4, 2 and 2
  rows, followed by the head's weight.
\<close>

theorem convert_parameter_qkv_round_trip_witness:
  "convert_hf_model (demo_falcon 8) [] =
     ([(''layers.0.self_attention.q_proj.weight'', [0, 1, 2, 3]),
       (''layers.0.self_attention.k_proj.weight'', [4, 5]),
       (''layers.0.self_attention.v_proj.weight'', [6, 7]),
       (''lm_head.weight'', [100, 101])], Inr ())
   \<and> [0, 1, 2, 3] @ [4, 5] @ [6, 7] = concat (map (\<lambda>i. [i]) [0..<8::nat])"
  using convert_parameter_qkv_round_trip
    [of "''transformer.h.0.self_attention.query_key_value.weight''" 2
        "\<lparr>hidden_size = 4, n_head_attr = Some 2, num_attention_heads = 2\<rparr>"
        "map (\<lambda>i. [i]) [0..<8::nat]" "[]"]
  by (simp add: convert_hf_model_def demo_falcon_def convert_parameter_def
        convert_hf_weight_name_def torch_split_def upt_rec)

section \<open>Properties of the resource cache\<close>

lemma lookup_append:
  "lookup n (xs @ ys) = (case lookup n xs of None \<Rightarrow> None | Some k \<Rightarrow> lookup k ys)"
proof (induction xs arbitrary: n)
  case Nil
  show ?case by simp
next
  case (Cons x xs)
  show ?case by (cases n) (auto simp: Cons.IH split: option.splits)
qed

lemma map_of_set_child:
  "map_of (set_child kids x k) y =
     (if y = x then (case map_of kids x of None \<Rightarrow> None | Some k0 \<Rightarrow> Some k) else map_of kids y)"
  by (induction kids) (auto simp: set_child_def)

lemma map_of_without: "map_of (filter (\<lambda>e. fst e \<noteq> x) kids) x = None"
  by (induction kids) auto

lemma mkdirs_fresh:
  "mkdirs t (Dir t []) xs = Inr k \<Longrightarrow> lookup k xs = Some (Dir t [])"
proof (induction xs arbitrary: k)
  case Nil
  then show ?case by simp
next
  case (Cons x xs)
  then show ?case by (auto split: sum.splits)
qed

lemma mkdirs_creates:
  "mkdirs t n xs = Inr n' \<Longrightarrow> lookup n xs = None \<Longrightarrow> lookup n' xs = Some (Dir t [])"
proof (induction xs arbitrary: n n')
  case Nil
  then show ?case by simp
next
  case (Cons x xs)
  from Cons.prems obtain t0 kids where n: "n = Dir t0 kids" by (cases n) auto
  show ?case
  proof (cases "map_of kids x")
    case None
    with Cons.prems n obtain k where k: "mkdirs t (Dir t []) xs = Inr k"
      and n': "n' = Dir t (kids @ [(x, k)])"
      by (auto split: sum.splits)
    from mkdirs_fresh [OF k] n' None show ?thesis by (simp add: map_add_def)
  next
    case (Some k0)
    with Cons.prems n obtain k where k: "mkdirs t k0 xs = Inr k"
      and n': "n' = Dir t0 (set_child kids x k)" and none: "lookup k0 xs = None"
      by (auto split: sum.splits)
    from Cons.IH [OF k none] n' Some show ?thesis by (simp add: map_of_set_child)
  qed
qed

lemma rmtree_removes: "rmtree t n xs = Inr n' \<Longrightarrow> lookup n' xs = None"
proof (induction xs arbitrary: n n')
  case Nil
  then show ?case by simp
next
  case (Cons x xs)
  from Cons.prems obtain t0 kids where n: "n = Dir t0 kids" by (cases n) auto
  from Cons.prems n obtain k0 where k0: "map_of kids x = Some k0"
    by (cases "map_of kids x") auto
  show ?case
  proof (cases "xs = []")
    case True
    with Cons.prems n k0 have "n' = Dir t (filter (\<lambda>e. fst e \<noteq> x) kids)"
      by (cases k0) auto
    then show ?thesis by (simp add: map_of_without)
  next
    case False
    with Cons.prems n k0 obtain k where k: "rmtree t k0 xs = Inr k"
      and n': "n' = Dir t0 (set_child kids x k)"
      by (auto split: sum.splits)
    from Cons.IH [OF k] n' k0 show ?thesis by (simp add: map_of_set_child)
  qed
qed

lemma write_file_into_empty:
  "write_file text t n (xs @ [f]) = Inr n' \<Longrightarrow> lookup n xs = Some (Dir t1 []) \<Longrightarrow>
     lookup n' xs = Some (Dir t [(f, File t text)])"
proof (induction xs arbitrary: n n')
  case Nil
  then show ?case by auto
next
  case (Cons x xs)
  from Cons.prems obtain t0 kids where n: "n = Dir t0 kids" by (cases n) auto
  from Cons.prems n obtain k0 where k0: "map_of kids x = Some k0" and l: "lookup k0 xs = Some (Dir t1 [])"
    by (cases "map_of kids x") auto
  from Cons.prems n k0 obtain k where k: "write_file text t k0 (xs @ [f]) = Inr k"
    and n': "n' = Dir t0 (set_child kids x k)"
    by (auto split: sum.splits)
  from Cons.IH [OF k l] n' k0 show ?case by (simp add: map_of_set_child)
qed

lemma apply_write_ok:
  "apply_write env fs op place = (fs', Inr u) \<Longrightarrow>
     op (time_text env (ticks fs)) (root fs) place = Inr (root fs')"
  by (auto simp: apply_write_def split: sum.splits)

lemma refresh_folder_result:
  assumes "refresh_folder env fs folder latest = (fs', Inr b)"
  shows "b \<and> (\<exists>t. lookup (root fs') folder = Some (Dir t [(''rev_sha.txt'', File t latest)]))"
proof -
  from assms obtain fs1 fs2 u1 u2 u3 where
    s1: "(if lookup (root fs) folder = None then (fs, Inr ())
          else apply_write env fs rmtree folder) = (fs1, Inr u1)"
    and s2: "apply_write env fs1 mkdirs folder = (fs2, Inr u2)"
    and s3: "apply_write env fs2 (write_file latest) (folder @ [''rev_sha.txt'']) = (fs', Inr u3)"
    and b: "b"
    by (auto simp: refresh_folder_def split: prod.splits sum.splits)
  have gone: "lookup (root fs1) folder = None"
  proof (cases "lookup (root fs) folder = None")
    case True
    with s1 show ?thesis by simp
  next
    case False
    with s1 have "apply_write env fs rmtree folder = (fs1, Inr u1)" by simp
    from rmtree_removes [OF apply_write_ok [OF this]] show ?thesis .
  qed
  from mkdirs_creates [OF apply_write_ok [OF s2] gone]
  have "lookup (root fs2) folder = Some (Dir (time_text env (ticks fs1)) [])" .
  from write_file_into_empty [OF apply_write_ok [OF s3] this] b show ?thesis by blast
qed

lemma stored_after_refresh:
  assumes "refresh_folder env fs folder latest = (fs', Inr b)"
  shows "stored_revision fs' folder = Inr (Some (strip_whitespace latest))"
    and "lookup (root fs') folder \<noteq> None"
  using refresh_folder_result [OF assms]
  by (auto simp: stored_revision_def lookup_append)

lemma need_cache_refresh_cases:
  assumes rev: "latest_revision_of self env fs (model_name self) = Inr latest"
    and p: "folder = resolve env (get_resource_path self env name kind)"
    and st: "stored_revision fs folder = Inr stored"
  shows "need_cache_refresh self env fs name kind =
           (if refresh_cache self \<or> lookup (root fs) folder = None \<or> stored \<noteq> Some latest
            then refresh_folder env fs folder latest
            else (fs, Inr False))"
  using rev p st by (simp add: need_cache_refresh_def get_revision_hashes_def Let_def)

lemma need_cache_refresh_stored:
  assumes "need_cache_refresh self env fs name kind = (fs1, Inr b)"
  shows "\<exists>stored. stored_revision fs (resolve env (get_resource_path self env name kind)) = Inr stored"
  using assms
  by (cases "stored_revision fs (resolve env (get_resource_path self env name kind))")
     (auto simp: need_cache_refresh_def get_revision_hashes_def Let_def)

lemma refreshed_cache_is_fresh:
  assumes first: "need_cache_refresh self env fs name kind = (fs1, Inr True)"
    and rev: "latest_revision_of self env fs (model_name self) = Inr latest"
    and rev1: "latest_revision_of self env fs1 (model_name self) = Inr latest"
    and tok: "strip_whitespace latest = latest"
    and nf: "\<not> refresh_cache self"
  shows "need_cache_refresh self env fs1 name kind = (fs1, Inr False)"
proof -
  let ?p = "resolve env (get_resource_path self env name kind)"
  from need_cache_refresh_stored [OF first] obtain stored where
    st: "stored_revision fs ?p = Inr stored" ..
  from first need_cache_refresh_cases [OF rev refl st]
  have "refresh_folder env fs ?p latest = (fs1, Inr True)"
    by (auto split: if_splits)
  from stored_after_refresh [OF this] tok
  have s1: "stored_revision fs1 ?p = Inr (Some latest)" and e1: "lookup (root fs1) ?p \<noteq> None"
    by simp_all
  from need_cache_refresh_cases [OF rev1 refl s1] e1 nf show ?thesis by simp
qed

lemma mkdirs_empty_ok: "\<exists>k. mkdirs t (Dir t []) xs = Inr k"
proof (induction xs)
  case Nil
  show ?case by simp
next
  case (Cons x xs)
  then obtain k where "mkdirs t (Dir t []) xs = Inr k" ..
  then show ?case by simp
qed

lemma mkdirs_ok:
  assumes "\<forall>k t1 text. lookup n (take k xs) \<noteq> Some (File t1 text)"
  shows "\<exists>n'. mkdirs t n xs = Inr n'"
  using assms
proof (induction xs arbitrary: n)
  case Nil
  then show ?case by (cases n) auto
next
  case (Cons x xs)
  from Cons.prems have "\<forall>t1 text. lookup n (take 0 (x # xs)) \<noteq> Some (File t1 text)" by blast
  then obtain t0 kids where n: "n = Dir t0 kids" by (cases n) auto
  show ?case
  proof (cases "map_of kids x")
    case None
    from mkdirs_empty_ok obtain k where "mkdirs t (Dir t []) xs = Inr k" ..
    with None n show ?thesis by simp
  next
    case (Some k0)
    have "\<forall>k t1 text. lookup k0 (take k xs) \<noteq> Some (File t1 text)"
    proof (intro allI)
      fix k t1 body
      from Cons.prems have "lookup n (take (Suc k) (x # xs)) \<noteq> Some (File t1 body)" by blast
      with n Some show "lookup k0 (take k xs) \<noteq> Some (File t1 body)" by simp
    qed
    from Cons.IH [OF this] obtain k where "mkdirs t k0 xs = Inr k" ..
    with Some n show ?thesis by simp
  qed
qed

lemma rmtree_ok:
  "xs \<noteq> [] \<Longrightarrow> lookup n xs = Some (Dir t1 kids1) \<Longrightarrow> \<exists>n'. rmtree t n xs = Inr n'"
proof (induction xs arbitrary: n)
  case Nil
  then show ?case by simp
next
  case (Cons x xs)
  from Cons.prems(2) obtain t0 kids where n: "n = Dir t0 kids" by (cases n) auto
  with Cons.prems(2) obtain k0 where k0: "map_of kids x = Some k0"
    and l: "lookup k0 xs = Some (Dir t1 kids1)"
    by (auto split: option.splits)
  show ?case
  proof (cases "xs = []")
    case True
    with l have "k0 = Dir t1 kids1" by simp
    with True n k0 show ?thesis by simp
  next
    case False
    from Cons.IH [OF False l] obtain k where "rmtree t k0 xs = Inr k" ..
    with False n k0 show ?thesis by simp
  qed
qed

lemma rmtree_then_mkdirs: "rmtree t n xs = Inr n' \<Longrightarrow> \<exists>m. mkdirs t' n' xs = Inr m"
proof (induction xs arbitrary: n n')
  case Nil
  then show ?case by simp
next
  case (Cons x xs)
  from Cons.prems obtain t0 kids where n: "n = Dir t0 kids" by (cases n) auto
  with Cons.prems obtain k0 where k0: "map_of kids x = Some k0"
    by (auto split: option.splits)
  show ?case
  proof (cases "xs = []")
    case True
    with Cons.prems n k0 have "n' = Dir t (filter (\<lambda>e. fst e \<noteq> x) kids)"
      by (auto split: node.splits)
    with True show ?thesis by (simp add: map_of_without)
  next
    case False
    with Cons.prems n k0 obtain k where k: "rmtree t k0 xs = Inr k"
      and n': "n' = Dir t0 (set_child kids x k)"
      by (auto split: sum.splits)
    from Cons.IH [OF k] obtain m where "mkdirs t' k xs = Inr m" ..
    with n' k0 show ?thesis by (simp add: map_of_set_child)
  qed
qed

lemma write_file_into_empty_ok:
  "lookup n xs = Some (Dir t1 []) \<Longrightarrow> \<exists>n'. write_file text t n (xs @ [f]) = Inr n'"
proof (induction xs arbitrary: n)
  case Nil
  then show ?case by simp
next
  case (Cons x xs)
  from Cons.prems obtain t0 kids where n: "n = Dir t0 kids" by (cases n) auto
  with Cons.prems obtain k0 where k0: "map_of kids x = Some k0"
    and l: "lookup k0 xs = Some (Dir t1 [])"
    by (auto split: option.splits)
  from Cons.IH [OF l] obtain k where "write_file text t k0 (xs @ [f]) = Inr k" ..
  with n k0 show ?case by simp
qed

lemma lookup_prefix_dir:
  assumes "lookup n xs = Some (Dir t1 kids1)"
  shows "lookup n (take k xs) \<noteq> Some (File t text)"
proof
  assume a: "lookup n (take k xs) = Some (File t text)"
  have "lookup n (take k xs @ drop k xs) = Some (Dir t1 kids1)" using assms by simp
  with a show False
    unfolding lookup_append [of n "take k xs" "drop k xs"]
    by (cases "drop k xs") auto
qed

lemma apply_write_run:
  "op (time_text env (ticks fs)) (root fs) place = Inr r \<Longrightarrow>
     apply_write env fs op place = (\<lparr>root = r, ticks = Suc (ticks fs)\<rparr>, Inr ())"
  by (simp add: apply_write_def)

lemma refresh_folder_ok:
  assumes ne: "folder \<noteq> []"
    and clear: "\<forall>k t1 text. lookup (root fs) (take k folder) \<noteq> Some (File t1 text)"
  shows "\<exists>fs'. refresh_folder env fs folder latest = (fs', Inr True)"
proof -
  have "\<exists>fs1. (if lookup (root fs) folder = None then (fs, Inr ())
               else apply_write env fs rmtree folder) = (fs1, Inr ())
             \<and> lookup (root fs1) folder = None
             \<and> (\<exists>m. mkdirs (time_text env (ticks fs1)) (root fs1) folder = Inr m)"
  proof (cases "lookup (root fs) folder")
    case None
    with mkdirs_ok [OF clear] show ?thesis by auto
  next
    case (Some k0)
    from clear have "\<forall>t1 text. lookup (root fs) (take (length folder) folder) \<noteq> Some (File t1 text)"
      by blast
    with Some obtain t1 kids1 where d: "lookup (root fs) folder = Some (Dir t1 kids1)"
      by (cases k0) auto
    from rmtree_ok [OF ne d] obtain r where
      r: "rmtree (time_text env (ticks fs)) (root fs) folder = Inr r" ..
    from rmtree_then_mkdirs [OF r] obtain m where
      "mkdirs (time_text env (Suc (ticks fs))) r folder = Inr m" ..
    with Some apply_write_run [of rmtree, OF r] rmtree_removes [OF r] show ?thesis by simp
  qed
  then obtain fs1 m where
    s1: "(if lookup (root fs) folder = None then (fs, Inr ())
          else apply_write env fs rmtree folder) = (fs1, Inr ())"
    and gone: "lookup (root fs1) folder = None"
    and m: "mkdirs (time_text env (ticks fs1)) (root fs1) folder = Inr m"
    by blast
  from mkdirs_creates [OF m gone]
  have "lookup m folder = Some (Dir (time_text env (ticks fs1)) [])" .
  from write_file_into_empty_ok [OF this] obtain w where
    w: "write_file latest (time_text env (Suc (ticks fs1))) m (folder @ [''rev_sha.txt'']) = Inr w" ..
  have s2: "apply_write env fs1 mkdirs folder = (\<lparr>root = m, ticks = Suc (ticks fs1)\<rparr>, Inr ())"
    using apply_write_run [of mkdirs, OF m] .
  have s3: "apply_write env \<lparr>root = m, ticks = Suc (ticks fs1)\<rparr> (write_file latest)
      (folder @ [''rev_sha.txt'']) = (\<lparr>root = w, ticks = Suc (Suc (ticks fs1))\<rparr>, Inr ())"
    using w by (simp add: apply_write_def)
  show ?thesis
    unfolding refresh_folder_def s1 by (simp add: s2 s3)
qed

lemma refresh_folder_place:
  assumes "refresh_folder env fs folder latest = (fs', Inr b)"
  shows "folder \<noteq> []"
proof
  assume "folder = []"
  with assms show False
    by (simp add: refresh_folder_def apply_write_def)
qed

lemma refresh_folder_again:
  assumes "refresh_folder env fs folder latest = (fs1, Inr b)"
  shows "\<exists>fs2. refresh_folder env fs1 folder latest1 = (fs2, Inr True)"
proof -
  from refresh_folder_result [OF assms] obtain t where
    d: "lookup (root fs1) folder = Some (Dir t [(''rev_sha.txt'', File t latest)])" by blast
  have "\<forall>k t1 text. lookup (root fs1) (take k folder) \<noteq> Some (File t1 text)"
    using lookup_prefix_dir [OF d] by blast
  from refresh_folder_ok [OF refresh_folder_place [OF assms] this] show ?thesis .
qed

lemma demo_places:
  "resolve demo_env (get_resource_path demo_settings demo_env ''acme/base'' WEIGHTS) =
     [''cache'', ''weights'', ''acme'', ''base'', ''half-precision'']"
  "resolve demo_env (get_resource_path demo_settings demo_env ''acme/lora-a'' WEIGHTS) =
     [''cache'', ''weights'', ''acme'', ''lora-a'', ''half-precision'']"
  "resolve demo_env ''acme/base'' = [''work'', ''acme'', ''base'']"
  "resolve demo_local_env (get_resource_path demo_local_settings demo_local_env ''/models/tiny'' WEIGHTS) =
     [''models'', ''tiny'', ''half-precision'']"
  "resolve demo_local_env ''/models/tiny'' = [''models'', ''tiny'']"
  "resolve demo_env ''/models/tiny'' = [''models'', ''tiny'']"
  by (simp_all add: resolve_def components_def get_resource_path_def demo_settings_def
        demo_local_settings_def demo_local_env_def demo_env_def path_join_def join2_def
        py_lower_def lower_char_def)

lemma demo_model_name: "model_name demo_settings = ''acme/base''"
  by (simp add: demo_settings_def)

lemma demo_latest:
  "latest_revision_of demo_settings demo_env demo_empty_disk (model_name demo_settings) = Inr ''aaaa1111''"
  "latest_revision_of demo_settings demo_env demo_base_cache (model_name demo_settings) = Inr ''aaaa1111''"
  "latest_revision_of demo_settings demo_env demo_adapter_cache (model_name demo_settings) = Inr ''aaaa1111''"
  by (simp_all add: latest_revision_of_def demo_model_name demo_places demo_empty_disk_def
        demo_base_cache_def demo_adapter_cache_def)
     (simp_all add: demo_env_def)

lemma demo_first_refresh:
  "need_cache_refresh demo_settings demo_env demo_empty_disk ''acme/base'' WEIGHTS =
     (demo_base_cache, Inr True)"
proof -
  have st: "stored_revision demo_empty_disk [''cache'', ''weights'', ''acme'', ''base'', ''half-precision'']
              = Inr None"
    by (simp add: stored_revision_def demo_empty_disk_def)
  show ?thesis
    unfolding need_cache_refresh_cases [OF demo_latest(1) demo_places(1) [symmetric] st]
    by (simp add: refresh_folder_def apply_write_def demo_empty_disk_def demo_base_cache_def)
       (simp add: demo_env_def set_child_def)
qed

lemma demo_local_latest:
  "latest_revision_of demo_local_settings demo_local_env demo_local_disk
     (model_name demo_local_settings) = Inr ''['b.bin','a.json',1700000001.5,1700000000.0]''"
  "latest_revision_of demo_local_settings demo_local_env demo_local_disk_refreshed
     (model_name demo_local_settings) =
     Inr ''['b.bin','a.json','half-precision',1700000001.5,1700000000.0,1800000000.55]''"
proof -
  have mn: "model_name demo_local_settings = ''/models/tiny''"
    by (simp add: demo_local_settings_def)
  have d: "md5_hexdigest demo_local_env = strip_whitespace"
    by (simp add: demo_local_env_def)
  show "latest_revision_of demo_local_settings demo_local_env demo_local_disk
     (model_name demo_local_settings) = Inr ''['b.bin','a.json',1700000001.5,1700000000.0]''"
    by (simp add: latest_revision_of_def mn demo_places demo_local_disk_def local_revision_def
          listing_of_def d py_str_state_def py_repr_str_def escape_char_def Let_def
          strip_whitespace_def is_space_def)
  show "latest_revision_of demo_local_settings demo_local_env demo_local_disk_refreshed
     (model_name demo_local_settings) =
     Inr ''['b.bin','a.json','half-precision',1700000001.5,1700000000.0,1800000000.55]''"
    by (simp add: latest_revision_of_def mn demo_places demo_local_disk_refreshed_def
          local_revision_def listing_of_def d py_str_state_def py_repr_str_def escape_char_def
          Let_def strip_whitespace_def is_space_def)
qed

lemma demo_local_first_refresh:
  "need_cache_refresh demo_local_settings demo_local_env demo_local_disk ''/models/tiny'' WEIGHTS =
     (demo_local_disk_refreshed, Inr True)"
proof -
  have st: "stored_revision demo_local_disk [''models'', ''tiny'', ''half-precision''] = Inr None"
    by (simp add: stored_revision_def demo_local_disk_def)
  show ?thesis
    unfolding need_cache_refresh_cases [OF demo_local_latest(1) demo_places(4) [symmetric] st]
    by (simp add: refresh_folder_def apply_write_def demo_local_disk_def
          demo_local_disk_refreshed_def)
       (simp add: demo_local_env_def demo_env_def set_child_def)
qed

lemma download_hf_tokenizer_local_absolute:
  "get_resource_path demo_local_settings demo_local_env ''/models/tiny'' TOKENIZER = ''/models/tiny''"
  "download_hf_tokenizer_if_needed demo_local_settings demo_local_env demo_local_disk =
     (\<lparr>root = Dir ''1700000000.0''
         [(''models'', Dir ''1800000000.55''
            [(''tiny'', Dir ''1800000000.555''
               [(''rev_sha.txt'',
                 File ''1800000000.555'' ''['b.bin','a.json',1700000001.5,1700000000.0]'')])])],
       ticks = 3\<rparr>, Inr ())"
proof -
  show path: "get_resource_path demo_local_settings demo_local_env ''/models/tiny'' TOKENIZER =
      ''/models/tiny''"
    by (simp add: get_resource_path_def demo_local_settings_def demo_local_env_def demo_env_def
          path_join_def join2_def py_lower_def lower_char_def)
  have mn: "model_name demo_local_settings = ''/models/tiny''"
    by (simp add: demo_local_settings_def)
  have st: "stored_revision demo_local_disk [''models'', ''tiny''] = Inr None"
    by (simp add: stored_revision_def demo_local_disk_def)
  have pl: "[''models'', ''tiny''] =
      resolve demo_local_env (get_resource_path demo_local_settings demo_local_env ''/models/tiny''
        TOKENIZER)"
    by (simp add: path demo_places)
  have need: "need_cache_refresh demo_local_settings demo_local_env demo_local_disk ''/models/tiny''
      TOKENIZER =
     (\<lparr>root = Dir ''1700000000.0''
         [(''models'', Dir ''1800000000.55''
            [(''tiny'', Dir ''1800000000.555''
               [(''rev_sha.txt'',
                 File ''1800000000.555'' ''['b.bin','a.json',1700000001.5,1700000000.0]'')])])],
       ticks = 3\<rparr>, Inr True)"
    unfolding need_cache_refresh_cases [OF demo_local_latest(1) pl st]
    by (simp add: refresh_folder_def apply_write_def demo_local_disk_def)
       (simp add: demo_local_env_def demo_env_def set_child_def)
  show "download_hf_tokenizer_if_needed demo_local_settings demo_local_env demo_local_disk =
     (\<lparr>root = Dir ''1700000000.0''
         [(''models'', Dir ''1800000000.55''
            [(''tiny'', Dir ''1800000000.555''
               [(''rev_sha.txt'',
                 File ''1800000000.555'' ''['b.bin','a.json',1700000001.5,1700000000.0]'')])])],
       ticks = 3\<rparr>, Inr ())"
    by (simp add: download_hf_tokenizer_if_needed_def mn need path demo_places
          target_tokenizer_files_def copy_tokenizer_file_def)
qed

text \<open>
  C3. What the code does on the second of two calls in a row, when the first one
  refreshed: it compares the marker the first call wrote with the latest revision as it
  is computed now, and refreshes again exactly when \<^verbatim>\<open>refresh_cache\<close> is set or the two
  differ, and that refresh goes through and returns \<^verbatim>\<open>True\<close>. For a remote model the latest revision
  is the hub's and the second call finds the folder fresh. For a local model given by
  an absolute path \<^verbatim>\<open>os.path.join\<close> drops the cache root in front of the name, the
  weights folder is created inside the model directory, the refresh itself changes the
  listing the revision is computed from, and every call refreshes again.
\<close>

theorem need_cache_refresh_second_call:
  assumes first: "need_cache_refresh self env fs name kind = (fs1, Inr True)"
    and rev: "latest_revision_of self env fs (model_name self) = Inr latest"
    and rev1: "latest_revision_of self env fs1 (model_name self) = Inr latest1"
    and p: "folder = resolve env (get_resource_path self env name kind)"
  shows "need_cache_refresh self env fs1 name kind =
           (if refresh_cache self \<or> latest1 \<noteq> strip_whitespace latest
            then refresh_folder env fs1 folder latest1
            else (fs1, Inr False))
       \<and> (\<exists>fs2. refresh_folder env fs1 folder latest1 = (fs2, Inr True))"
proof -
  from need_cache_refresh_stored [OF first] p obtain stored where
    st: "stored_revision fs folder = Inr stored" by blast
  from first need_cache_refresh_cases [OF rev p st]
  have r: "refresh_folder env fs folder latest = (fs1, Inr True)"
    by (auto split: if_splits)
  from stored_after_refresh [OF r]
  have s1: "stored_revision fs1 folder = Inr (Some (strip_whitespace latest))"
    and ex: "lookup (root fs1) folder \<noteq> None" .
  from need_cache_refresh_cases [OF rev1 p s1] ex
  have again: "need_cache_refresh self env fs1 name kind =
           (if refresh_cache self \<or> latest1 \<noteq> strip_whitespace latest
            then refresh_folder env fs1 folder latest1
            else (fs1, Inr False))"
    by auto
  moreover have "\<exists>fs2. refresh_folder env fs1 folder latest1 = (fs2, Inr True)"
    using refresh_folder_again [OF r] .
  ultimately show ?thesis by simp
qed

text \<open>
  The instance: a session on the local model \<^verbatim>\<open>/models/tiny\<close>, \<^verbatim>\<open>refresh_cache\<close> off.
  The first call creates \<^verbatim>\<open>/models/tiny/half-precision\<close> and returns \<^verbatim>\<open>True\<close>; the
  second call, on the disk the first one left, returns \<^verbatim>\<open>True\<close> again. Beside it the
  remote model \<^verbatim>\<open>acme/base\<close>: the first call refreshes, the second does not.
\<close>

theorem need_cache_refresh_second_call_witness:
  "refresh_cache demo_local_settings = False
   \<and> get_resource_path demo_local_settings demo_local_env ''/models/tiny'' WEIGHTS =
       ''/models/tiny/half-precision''
   \<and> need_cache_refresh demo_local_settings demo_local_env demo_local_disk ''/models/tiny'' WEIGHTS =
       (demo_local_disk_refreshed, Inr True)
   \<and> need_cache_refresh demo_local_settings demo_local_env demo_local_disk_refreshed
        ''/models/tiny'' WEIGHTS =
       (\<lparr>root = Dir ''1700000000.0''
           [(''models'', Dir ''1700000000.0''
              [(''tiny'', Dir ''1800000000.5555''
                 [(''b.bin'', File ''1700000001.5'' ''weights''),
                  (''a.json'', File ''1700000000.0'' ''config''),
                  (''half-precision'', Dir ''1800000000.55555''
                     [(''rev_sha.txt'',
                       File ''1800000000.55555''
                         ''['b.bin','a.json','half-precision',1700000001.5,1700000000.0,1800000000.55]'')])])])],
         ticks = 5\<rparr>, Inr True)
   \<and> need_cache_refresh demo_settings demo_env demo_empty_disk ''acme/base'' WEIGHTS =
       (demo_base_cache, Inr True)
   \<and> need_cache_refresh demo_settings demo_env demo_base_cache ''acme/base'' WEIGHTS =
       (demo_base_cache, Inr False)"
proof -
  have remote: "need_cache_refresh demo_settings demo_env demo_base_cache ''acme/base'' WEIGHTS =
       (demo_base_cache, Inr False)"
    using need_cache_refresh_second_call [OF demo_first_refresh demo_latest(1) demo_latest(2)
        demo_places(1) [symmetric]]
    by (simp add: demo_settings_def strip_whitespace_def is_space_def)
  have nf: "refresh_cache demo_local_settings = False"
    by (simp add: demo_local_settings_def)
  have path: "get_resource_path demo_local_settings demo_local_env ''/models/tiny'' WEIGHTS =
       ''/models/tiny/half-precision''"
    by (simp add: get_resource_path_def demo_local_settings_def demo_local_env_def demo_env_def
          path_join_def join2_def py_lower_def lower_char_def)
  have changed: "''['b.bin','a.json','half-precision',1700000001.5,1700000000.0,1800000000.55]'' \<noteq>
      strip_whitespace ''['b.bin','a.json',1700000001.5,1700000000.0]''"
    by (simp add: strip_whitespace_def is_space_def)
  from need_cache_refresh_second_call [OF demo_local_first_refresh demo_local_latest
      demo_places(4) [symmetric]] changed
  have again: "need_cache_refresh demo_local_settings demo_local_env demo_local_disk_refreshed
        ''/models/tiny'' WEIGHTS =
      refresh_folder demo_local_env demo_local_disk_refreshed [''models'', ''tiny'', ''half-precision'']
        ''['b.bin','a.json','half-precision',1700000001.5,1700000000.0,1800000000.55]''"
    by simp
  have "refresh_folder demo_local_env demo_local_disk_refreshed
        [''models'', ''tiny'', ''half-precision'']
        ''['b.bin','a.json','half-precision',1700000001.5,1700000000.0,1800000000.55]'' =
       (\<lparr>root = Dir ''1700000000.0''
           [(''models'', Dir ''1700000000.0''
              [(''tiny'', Dir ''1800000000.5555''
                 [(''b.bin'', File ''1700000001.5'' ''weights''),
                  (''a.json'', File ''1700000000.0'' ''config''),
                  (''half-precision'', Dir ''1800000000.55555''
                     [(''rev_sha.txt'',
                       File ''1800000000.55555''
                         ''['b.bin','a.json','half-precision',1700000001.5,1700000000.0,1800000000.55]'')])])])],
         ticks = 5\<rparr>, Inr True)"
    by (simp add: refresh_folder_def apply_write_def demo_local_disk_refreshed_def)
       (simp add: demo_local_env_def demo_env_def set_child_def eval_nat_numeral)
  with again nf path demo_local_first_refresh demo_first_refresh remote show ?thesis by simp
qed

text \<open>
  C2. What the code does: whatever name \<^verbatim>\<open>__need_cache_refresh\<close> is called with, the
  revision it compares the marker with, and writes on a refresh, is the latest revision
  of \<^verbatim>\<open>self.model_name\<close>. The name passed only selects the folder. For an adapter id the
  latest revision is therefore the base model's, not the adapter's, and
  \<^verbatim>\<open>download_peft_adapter_if_needed\<close> downloads on that decision.
\<close>

theorem need_cache_refresh_uses_session_revision:
  assumes rev: "latest_revision_of self env fs (model_name self) = Inr latest"
    and p: "folder = resolve env (get_resource_path self env name kind)"
  shows "need_cache_refresh self env fs name kind =
           (case stored_revision fs folder of
              Inl e \<Rightarrow> (fs, Inl e)
            | Inr stored \<Rightarrow>
                if refresh_cache self \<or> lookup (root fs) folder = None \<or> stored \<noteq> Some latest
                then refresh_folder env fs folder latest
                else (fs, Inr False))
       \<and> (kind = WEIGHTS \<longrightarrow>
            download_peft_adapter_if_needed self env download fs name =
              (case stored_revision fs folder of
                 Inl e \<Rightarrow> (fs, Inl e)
               | Inr stored \<Rightarrow>
                   if refresh_cache self \<or> lookup (root fs) folder = None \<or> stored \<noteq> Some latest
                   then (case refresh_folder env fs folder latest of
                           (fs1, Inl e) \<Rightarrow> (fs1, Inl e)
                         | (fs1, Inr b) \<Rightarrow> download name fs1)
                   else (fs, Inr ())))"
proof (cases "stored_revision fs folder")
  case (Inl e)
  with p have "need_cache_refresh self env fs name kind = (fs, Inl e)"
    by (simp add: need_cache_refresh_def get_revision_hashes_def Let_def)
  with Inl show ?thesis by (auto simp: download_peft_adapter_if_needed_def)
next
  case (Inr stored)
  note n = need_cache_refresh_cases [OF rev p Inr]
  show ?thesis
  proof (cases "refresh_cache self \<or> lookup (root fs) folder = None \<or> stored \<noteq> Some latest")
    case False
    with n have "need_cache_refresh self env fs name kind = (fs, Inr False)" by simp
    with Inr False show ?thesis by (auto simp: download_peft_adapter_if_needed_def)
  next
    case True
    with n have r: "need_cache_refresh self env fs name kind = refresh_folder env fs folder latest"
      by simp
    obtain fs1 res where f: "refresh_folder env fs folder latest = (fs1, res)"
      by (cases "refresh_folder env fs folder latest")
    show ?thesis
    proof (cases res)
      case (Inl e)
      with r f Inr True show ?thesis by (auto simp: download_peft_adapter_if_needed_def)
    next
      case (Inr b)
      with f refresh_folder_result have b by blast
      with r f Inr \<open>stored_revision fs folder = Inr stored\<close> True show ?thesis
        by (auto simp: download_peft_adapter_if_needed_def)
    qed
  qed
qed

text \<open>
  The instance: the adapter \<^verbatim>\<open>acme/lora-a\<close> is at commit \<open>bbbb2222\<close> on the hub, its
  weights folder is marked \<open>aaaa1111\<close> (the base model's commit), the check reports
  that no refresh is needed, and \<^verbatim>\<open>download_peft_adapter_if_needed\<close> downloads nothing.
\<close>

theorem need_cache_refresh_uses_session_revision_witness:
  "model_info_sha demo_env ''acme/lora-a'' = Inr ''bbbb2222''
   \<and> stored_revision demo_adapter_cache
        (resolve demo_env (get_resource_path demo_settings demo_env ''acme/lora-a'' WEIGHTS)) =
        Inr (Some ''aaaa1111'')
   \<and> need_cache_refresh demo_settings demo_env demo_adapter_cache ''acme/lora-a'' WEIGHTS =
        (demo_adapter_cache, Inr False)
   \<and> download_peft_adapter_if_needed demo_settings demo_env
        (\<lambda>pid fs. (fs\<lparr>ticks := Suc (ticks fs)\<rparr>, Inr ()))
        demo_adapter_cache ''acme/lora-a'' =
        (demo_adapter_cache, Inr ())"
proof -
  have st: "stored_revision demo_adapter_cache
      [''cache'', ''weights'', ''acme'', ''lora-a'', ''half-precision''] = Inr (Some ''aaaa1111'')"
    by (simp add: stored_revision_def demo_adapter_cache_def strip_whitespace_def is_space_def)
  have ex: "lookup (root demo_adapter_cache)
      [''cache'', ''weights'', ''acme'', ''lora-a'', ''half-precision''] \<noteq> None"
    by (simp add: demo_adapter_cache_def)
  have nf: "\<not> refresh_cache demo_settings" by (simp add: demo_settings_def)
  have sha: "model_info_sha demo_env ''acme/lora-a'' = Inr ''bbbb2222''"
    by (simp add: demo_env_def)
  from need_cache_refresh_uses_session_revision [OF demo_latest(3) demo_places(2) [symmetric],
      where download = "\<lambda>pid fs. (fs\<lparr>ticks := Suc (ticks fs)\<rparr>, Inr ())"]
    ex nf st sha
  show ?thesis by (simp add: demo_places)
qed

text \<open>
  C1. What the code does: when a refresh is needed and the model download fails,
  \<^verbatim>\<open>download_hf_weights_if_needed\<close> raises and leaves the weights folder holding the
  marker with the latest revision and nothing else. With \<^verbatim>\<open>refresh_cache\<close> off and the
  source as it was, the next call then takes the folder for fresh and does not download.
  The tokenizer folder is left in the same state when the snapshot download fails.
  The refresh itself goes through whenever the marker can be read and no file stands on
  the path of the folder.
\<close>

theorem download_hf_weights_failure_leaves_marker:
  assumes rev: "latest_revision_of self env fs (model_name self) = Inr latest"
    and p: "folder = resolve env (get_resource_path self env (model_name self) WEIGHTS)"
    and st: "stored_revision fs folder = Inr stored"
    and stale: "refresh_cache self \<or> lookup (root fs) folder = None \<or> stored \<noteq> Some latest"
    and ne: "folder \<noteq> []"
    and clear: "\<forall>k t1 body. lookup (root fs) (take k folder) \<noteq> Some (File t1 body)"
    and fail: "auto_model_from_pretrained tools (model_name self)
                 (fst (refresh_folder env fs folder latest)) = Inl e"
  shows "(\<exists>fs1. download_hf_weights_if_needed self env tools fs = (fs1, Inl e)
           \<and> (\<exists>t. lookup (root fs1) folder = Some (Dir t [(''rev_sha.txt'', File t latest)]))
           \<and> (\<not> refresh_cache self \<and> strip_whitespace latest = latest
                \<and> latest_revision_of self env fs1 (model_name self) = Inr latest \<longrightarrow>
                (\<forall>tools'. download_hf_weights_if_needed self env (tools' :: 'm weight_tools) fs1 =
                            (fs1, Inr ()))))
       \<and> (\<forall>tfolder tstored e'.
              tfolder = resolve env (get_resource_path self env (model_name self) TOKENIZER)
            \<and> stored_revision fs tfolder = Inr tstored
            \<and> (refresh_cache self \<or> lookup (root fs) tfolder = None \<or> tstored \<noteq> Some latest)
            \<and> tfolder \<noteq> []
            \<and> (\<forall>k t1 body. lookup (root fs) (take k tfolder) \<noteq> Some (File t1 body)) \<longrightarrow>
            (\<exists>tfs. need_cache_refresh self env fs (model_name self) TOKENIZER = (tfs, Inr True)
               \<and> (\<exists>t. lookup (root tfs) tfolder = Some (Dir t [(''rev_sha.txt'', File t latest)]))
               \<and> (lookup (root tfs) (resolve env (model_name self)) = None
                    \<and> snapshot_download env (model_name self) = Inl e' \<longrightarrow>
                    download_hf_tokenizer_if_needed self env fs = (tfs, Inl e'))))"
proof -
  from refresh_folder_ok [OF ne clear] obtain fs1 where
    r: "refresh_folder env fs folder latest = (fs1, Inr True)" ..
  from need_cache_refresh_cases [OF rev p st] stale r
  have first: "need_cache_refresh self env fs (model_name self) WEIGHTS = (fs1, Inr True)"
    by auto
  from fail r have fail1: "auto_model_from_pretrained tools (model_name self) fs1 = Inl e"
    by simp
  have run: "download_hf_weights_if_needed self env tools fs = (fs1, Inl e)"
    using first fail1
    by (simp add: download_hf_weights_if_needed_def download_and_convert_llm_weights_def)
  have only: "\<exists>t. lookup (root fs1) folder = Some (Dir t [(''rev_sha.txt'', File t latest)])"
    using refresh_folder_result [OF r] by simp
  have again: "\<not> refresh_cache self \<and> strip_whitespace latest = latest
            \<and> latest_revision_of self env fs1 (model_name self) = Inr latest \<longrightarrow>
      (\<forall>tools'. download_hf_weights_if_needed self env (tools' :: 'm weight_tools) fs1 =
                  (fs1, Inr ()))"
  proof (intro impI allI)
    fix tools' :: "'m weight_tools"
    assume h: "\<not> refresh_cache self \<and> strip_whitespace latest = latest
            \<and> latest_revision_of self env fs1 (model_name self) = Inr latest"
    then have "need_cache_refresh self env fs1 (model_name self) WEIGHTS = (fs1, Inr False)"
      using refreshed_cache_is_fresh [OF first rev] by blast
    then show "download_hf_weights_if_needed self env tools' fs1 = (fs1, Inr ())"
      by (simp add: download_hf_weights_if_needed_def)
  qed
  have tokenizer: "\<forall>tfolder tstored e'.
              tfolder = resolve env (get_resource_path self env (model_name self) TOKENIZER)
            \<and> stored_revision fs tfolder = Inr tstored
            \<and> (refresh_cache self \<or> lookup (root fs) tfolder = None \<or> tstored \<noteq> Some latest)
            \<and> tfolder \<noteq> []
            \<and> (\<forall>k t1 body. lookup (root fs) (take k tfolder) \<noteq> Some (File t1 body)) \<longrightarrow>
            (\<exists>tfs. need_cache_refresh self env fs (model_name self) TOKENIZER = (tfs, Inr True)
               \<and> (\<exists>t. lookup (root tfs) tfolder = Some (Dir t [(''rev_sha.txt'', File t latest)]))
               \<and> (lookup (root tfs) (resolve env (model_name self)) = None
                    \<and> snapshot_download env (model_name self) = Inl e' \<longrightarrow>
                    download_hf_tokenizer_if_needed self env fs = (tfs, Inl e')))"
  proof (intro allI impI)
    fix tfolder tstored e'
    assume h: "tfolder = resolve env (get_resource_path self env (model_name self) TOKENIZER)
            \<and> stored_revision fs tfolder = Inr tstored
            \<and> (refresh_cache self \<or> lookup (root fs) tfolder = None \<or> tstored \<noteq> Some latest)
            \<and> tfolder \<noteq> []
            \<and> (\<forall>k t1 body. lookup (root fs) (take k tfolder) \<noteq> Some (File t1 body))"
    then have tp: "tfolder = resolve env (get_resource_path self env (model_name self) TOKENIZER)"
      and tst: "stored_revision fs tfolder = Inr tstored"
      and tstale: "refresh_cache self \<or> lookup (root fs) tfolder = None \<or> tstored \<noteq> Some latest"
      and tne: "tfolder \<noteq> []"
      and tclear: "\<forall>k t1 body. lookup (root fs) (take k tfolder) \<noteq> Some (File t1 body)"
      by blast+
    from refresh_folder_ok [OF tne tclear] obtain tfs where
      tr: "refresh_folder env fs tfolder latest = (tfs, Inr True)" ..
    from need_cache_refresh_cases [OF rev tp tst] tstale tr
    have tfirst: "need_cache_refresh self env fs (model_name self) TOKENIZER = (tfs, Inr True)"
      by auto
    have tonly: "\<exists>t. lookup (root tfs) tfolder = Some (Dir t [(''rev_sha.txt'', File t latest)])"
      using refresh_folder_result [OF tr] by simp
    have tfail: "lookup (root tfs) (resolve env (model_name self)) = None
                    \<and> snapshot_download env (model_name self) = Inl e' \<longrightarrow>
                    download_hf_tokenizer_if_needed self env fs = (tfs, Inl e')"
      using tfirst by (simp add: download_hf_tokenizer_if_needed_def)
    from tfirst tonly tfail
    show "\<exists>tfs. need_cache_refresh self env fs (model_name self) TOKENIZER = (tfs, Inr True)
               \<and> (\<exists>t. lookup (root tfs) tfolder = Some (Dir t [(''rev_sha.txt'', File t latest)]))
               \<and> (lookup (root tfs) (resolve env (model_name self)) = None
                    \<and> snapshot_download env (model_name self) = Inl e' \<longrightarrow>
                    download_hf_tokenizer_if_needed self env fs = (tfs, Inl e'))"
      by blast
  qed
  from run only again tokenizer show ?thesis by blast
qed

text \<open>
  The instance: the base model \<^verbatim>\<open>acme/base\<close> on an empty disk, with a download that is
  interrupted. The call raises and leaves the weights folder with the marker alone; the
  next call returns without downloading.
\<close>

theorem download_hf_weights_failure_leaves_marker_witness:
  "download_hf_weights_if_needed demo_settings demo_env demo_failing_tools demo_empty_disk =
     (demo_base_cache, Inl (SourceUnreachable ''acme/base''))
   \<and> lookup (root demo_base_cache) [''cache'', ''weights'', ''acme'', ''base'', ''half-precision''] =
       Some (Dir ''1800000000.55'' [(''rev_sha.txt'', File ''1800000000.55'' ''aaaa1111'')])
   \<and> download_hf_weights_if_needed demo_settings demo_env demo_failing_tools demo_base_cache =
     (demo_base_cache, Inr ())"
proof -
  have first: "need_cache_refresh demo_settings demo_env demo_empty_disk (model_name demo_settings)
      WEIGHTS = (demo_base_cache, Inr True)"
    by (simp add: demo_model_name demo_first_refresh)
  have p: "[''cache'', ''weights'', ''acme'', ''base'', ''half-precision''] =
      resolve demo_env (get_resource_path demo_settings demo_env (model_name demo_settings) WEIGHTS)"
    by (simp add: demo_model_name demo_places)
  have st: "stored_revision demo_empty_disk
      [''cache'', ''weights'', ''acme'', ''base'', ''half-precision''] = Inr None"
    by (simp add: stored_revision_def demo_empty_disk_def)
  have stale: "refresh_cache demo_settings
      \<or> lookup (root demo_empty_disk) [''cache'', ''weights'', ''acme'', ''base'', ''half-precision''] = None
      \<or> None \<noteq> Some ''aaaa1111''"
    by simp
  have ne: "[''cache'', ''weights'', ''acme'', ''base'', ''half-precision''] \<noteq> []"
    by simp
  have clear: "\<forall>k t1 body. lookup (root demo_empty_disk)
      (take k [''cache'', ''weights'', ''acme'', ''base'', ''half-precision'']) \<noteq> Some (File t1 body)"
  proof (intro allI)
    fix k t1 body
    show "lookup (root demo_empty_disk)
      (take k [''cache'', ''weights'', ''acme'', ''base'', ''half-precision'']) \<noteq> Some (File t1 body)"
      by (cases "take k [''cache'', ''weights'', ''acme'', ''base'', ''half-precision'']")
         (simp_all add: demo_empty_disk_def)
  qed
  have fail: "auto_model_from_pretrained demo_failing_tools (model_name demo_settings)
      (fst (refresh_folder demo_env demo_empty_disk
              [''cache'', ''weights'', ''acme'', ''base'', ''half-precision''] ''aaaa1111'')) =
      Inl (SourceUnreachable ''acme/base'')"
    by (simp add: demo_failing_tools_def demo_model_name)
  have nf: "\<not> refresh_cache demo_settings" by (simp add: demo_settings_def)
  have tok: "strip_whitespace ''aaaa1111'' = ''aaaa1111''"
    by (simp add: strip_whitespace_def is_space_def)
  have l: "lookup (root demo_base_cache) [''cache'', ''weights'', ''acme'', ''base'', ''half-precision''] =
       Some (Dir ''1800000000.55'' [(''rev_sha.txt'', File ''1800000000.55'' ''aaaa1111'')])"
    by (simp add: demo_base_cache_def)
  from download_hf_weights_failure_leaves_marker [OF demo_latest(1) p st stale ne clear fail]
  obtain fs1 where
    a: "download_hf_weights_if_needed demo_settings demo_env demo_failing_tools demo_empty_disk =
      (fs1, Inl (SourceUnreachable ''acme/base''))"
    and b: "\<not> refresh_cache demo_settings \<and> strip_whitespace ''aaaa1111'' = ''aaaa1111''
        \<and> latest_revision_of demo_settings demo_env fs1 (model_name demo_settings) = Inr ''aaaa1111'' \<longrightarrow>
       (\<forall>tools'. download_hf_weights_if_needed demo_settings demo_env
          (tools' :: unit weight_tools) fs1 = (fs1, Inr ()))"
    by blast
  from first have "download_hf_weights_if_needed demo_settings demo_env demo_failing_tools
      demo_empty_disk = (demo_base_cache, Inl (SourceUnreachable ''acme/base''))"
    by (simp add: download_hf_weights_if_needed_def download_and_convert_llm_weights_def
          demo_failing_tools_def demo_model_name)
  with a have fs1: "fs1 = demo_base_cache" by simp
  from b nf tok demo_latest(2) have "download_hf_weights_if_needed demo_settings demo_env
      demo_failing_tools demo_base_cache = (demo_base_cache, Inr ())"
    unfolding fs1 by blast
  with a l show ?thesis unfolding fs1 by simp
qed

lemma demo_state_text:
  "py_str_state [''b.bin'', ''a.json''] [''1700000001.5'', ''1700000000.0''] =
     ''['b.bin', 'a.json', 1700000001.5, 1700000000.0]''"
  "py_str_state [''a.json'', ''b.bin''] [''1700000000.0'', ''1700000001.5''] =
     ''['a.json', 'b.bin', 1700000000.0, 1700000001.5]''"
  by (simp_all add: py_str_state_def py_repr_str_def escape_char_def Let_def)

text \<open>
  C4 as stated fails: the file names are hashed in the order \<^verbatim>\<open>os.listdir\<close> returns them,
  not sorted. A directory with the files \<^verbatim>\<open>a.json\<close> and \<^verbatim>\<open>b.bin\<close> and the same
  modification times gives one text to the digest when it is listed as \<^verbatim>\<open>b.bin\<close>,
  \<^verbatim>\<open>a.json\<close> and another when it is listed in sorted order, and so two revisions under
  any digest that tells the two texts apart.
\<close>

theorem local_revision_listing_order_counterexample:
  "set [(''b.bin'', ''1700000001.5''), (''a.json'', ''1700000000.0'')] =
     set [(''a.json'', ''1700000000.0''), (''b.bin'', ''1700000001.5'')]
   \<and> local_revision demo_env [(''b.bin'', ''1700000001.5''), (''a.json'', ''1700000000.0'')] =
       md5_hexdigest demo_env ''['b.bin', 'a.json', 1700000001.5, 1700000000.0]''
   \<and> local_revision demo_env [(''a.json'', ''1700000000.0''), (''b.bin'', ''1700000001.5'')] =
       md5_hexdigest demo_env ''['a.json', 'b.bin', 1700000000.0, 1700000001.5]''
   \<and> local_revision demo_env [(''b.bin'', ''1700000001.5''), (''a.json'', ''1700000000.0'')] \<noteq>
       local_revision demo_env [(''a.json'', ''1700000000.0''), (''b.bin'', ''1700000001.5'')]"
proof -
  have "set [(''b.bin'', ''1700000001.5''), (''a.json'', ''1700000000.0'')] =
     set [(''a.json'', ''1700000000.0''), (''b.bin'', ''1700000001.5'')]"
    by auto
  moreover have "local_revision demo_env [(''b.bin'', ''1700000001.5''), (''a.json'', ''1700000000.0'')] =
       md5_hexdigest demo_env ''['b.bin', 'a.json', 1700000001.5, 1700000000.0]''"
    by (simp add: local_revision_def demo_state_text)
  moreover have "local_revision demo_env [(''a.json'', ''1700000000.0''), (''b.bin'', ''1700000001.5'')] =
       md5_hexdigest demo_env ''['a.json', 'b.bin', 1700000000.0, 1700000001.5]''"
    by (simp add: local_revision_def demo_state_text)
  moreover have "md5_hexdigest demo_env ''['b.bin', 'a.json', 1700000001.5, 1700000000.0]'' \<noteq>
       md5_hexdigest demo_env ''['a.json', 'b.bin', 1700000000.0, 1700000001.5]''"
    by (simp add: demo_env_def)
  ultimately show ?thesis by simp
qed

text \<open>
  C4, amended. For a model name that resolves to a local directory, the latest revision
  never fails and is the digest of one text: the names in the order \<^verbatim>\<open>os.listdir\<close>
  returns them, followed by their modification times in the same order. It depends on
  nothing else: two computations that see the same listing, in the same order and with
  the same times, give the same revision, whatever the session, the name and the state
  of the hub.
\<close>

theorem local_revision_deterministic:
  assumes "lookup (root fs1) (resolve env1 n1) = Some (Dir t1 kids1)"
    and "listing_of kids1 = listing"
    and "lookup (root fs2) (resolve env2 n2) = Some (Dir t2 kids2)"
    and "listing_of kids2 = listing"
    and "md5_hexdigest env1 = md5_hexdigest env2"
  shows "latest_revision_of self1 env1 fs1 n1 =
           Inr (md5_hexdigest env1 (py_str_state (map fst listing) (map snd listing)))
       \<and> latest_revision_of self2 env2 fs2 n2 = latest_revision_of self1 env1 fs1 n1"
  using assms by (simp add: latest_revision_of_def local_revision_def)

theorem local_revision_deterministic_witness:
  "latest_revision_of demo_settings demo_env demo_local_disk ''/models/tiny'' =
     Inr ''['b.bin', 'a.json', 1700000001.5, 1700000000.0]''
   \<and> latest_revision_of demo_local_settings demo_env demo_local_disk ''/models/tiny'' =
     latest_revision_of demo_settings demo_env demo_local_disk ''/models/tiny''"
proof -
  have l: "lookup (root demo_local_disk) (resolve demo_env ''/models/tiny'') =
             Some (Dir ''1700000002.0''
                [(''b.bin'', File ''1700000001.5'' ''weights''),
                 (''a.json'', File ''1700000000.0'' ''config'')])"
    by (simp add: demo_places demo_local_disk_def)
  have k: "listing_of [(''b.bin'', File ''1700000001.5'' ''weights''),
                       (''a.json'', File ''1700000000.0'' ''config'')] =
             [(''b.bin'', ''1700000001.5''), (''a.json'', ''1700000000.0'')]"
    by (simp add: listing_of_def)
  have d: "md5_hexdigest demo_env ''['b.bin', 'a.json', 1700000001.5, 1700000000.0]'' =
             ''['b.bin', 'a.json', 1700000001.5, 1700000000.0]''"
    by (simp add: demo_env_def)
  from local_revision_deterministic [OF l k l k refl, of demo_settings demo_local_settings]
  show ?thesis by (simp add: demo_state_text d)
qed

end
